theory Spec2Isabelle
  imports Main
begin

section \<open>Python text\<close>

text \<open>
  A Python \<open>str\<close> is a sequence of Unicode code points, and \<open>len\<close>, slicing, \<open>in\<close>,
  \<open>split\<close> and \<open>replace\<close> all count code points.  The program's vocabulary is
  Chinese, so text is modelled as a list of code points (integers, as \<open>ord\<close> gives them), written in
  hexadecimal as in the Unicode charts: \<open>[0x6DF1, 0x5733]\<close> is the two-character name of
  Shenzhen.
\<close>

type_synonym uchar = int
type_synonym ustr = "uchar list"

text \<open>The characters \<open>str.isspace\<close> accepts; \<open>str.strip()\<close> removes exactly these.\<close>

definition is_space :: "uchar \<Rightarrow> bool" where
  "is_space c \<longleftrightarrow>
     (0x9 \<le> c \<and> c \<le> 0xD) \<or> (0x1C \<le> c \<and> c \<le> 0x20) \<or> c = 0x85 \<or> c = 0xA0 \<or>
     c = 0x1680 \<or> (0x2000 \<le> c \<and> c \<le> 0x200A) \<or> c = 0x2028 \<or> c = 0x2029 \<or>
     c = 0x202F \<or> c = 0x205F \<or> c = 0x3000"

definition lstrip_by :: "(uchar \<Rightarrow> bool) \<Rightarrow> ustr \<Rightarrow> ustr" where
  "lstrip_by P s = dropWhile P s"

definition rstrip_by :: "(uchar \<Rightarrow> bool) \<Rightarrow> ustr \<Rightarrow> ustr" where
  "rstrip_by P s = rev (dropWhile P (rev s))"

definition strip_by :: "(uchar \<Rightarrow> bool) \<Rightarrow> ustr \<Rightarrow> ustr" where
  "strip_by P s = rstrip_by P (lstrip_by P s)"

text \<open>\<open>s.strip()\<close>, \<open>s.strip(chars)\<close> and \<open>s.rstrip(chars)\<close>.\<close>

definition strip :: "ustr \<Rightarrow> ustr" where
  "strip s = strip_by is_space s"

definition strip_chars :: "uchar list \<Rightarrow> ustr \<Rightarrow> ustr" where
  "strip_chars cs s = strip_by (\<lambda>c. c \<in> set cs) s"

definition rstrip_chars :: "uchar list \<Rightarrow> ustr \<Rightarrow> ustr" where
  "rstrip_chars cs s = rstrip_by (\<lambda>c. c \<in> set cs) s"

text \<open>\<open>s.startswith(p)\<close>, \<open>s.endswith(p)\<close> and the substring test \<open>p in s\<close>.\<close>

definition starts_with :: "ustr \<Rightarrow> ustr \<Rightarrow> bool" where
  "starts_with p s \<longleftrightarrow> take (length p) s = p"

definition ends_with :: "ustr \<Rightarrow> ustr \<Rightarrow> bool" where
  "ends_with p s \<longleftrightarrow> starts_with (rev p) (rev s)"

fun py_in :: "ustr \<Rightarrow> ustr \<Rightarrow> bool" where
  "py_in p [] = (p = [])"
| "py_in p (c # cs) = (starts_with p (c # cs) \<or> py_in p cs)"

text \<open>
  \<open>s.split(sep)\<close> for a non-empty separator: the pieces between the occurrences of
  \<open>sep\<close>, found from the left without overlap.  (Python raises \<open>ValueError\<close> on an
  empty separator; the program only splits on the fixed, non-empty tokens of its
  tables, and the model returns the text as its only piece there.)
\<close>

fun py_split :: "ustr \<Rightarrow> ustr \<Rightarrow> ustr list" where
  "py_split sep [] = [[]]"
| "py_split sep (c # cs) =
     (if sep = [] then [c # cs]
      else if starts_with sep (c # cs) then [] # py_split sep (drop (length sep - 1) cs)
      else (case py_split sep cs of
              [] \<Rightarrow> [[c]]
            | p # ps \<Rightarrow> (c # p) # ps))"

text \<open>
  \<open>s.replace(old, new)\<close>: every occurrence of \<open>old\<close>, from the left and without
  overlap, becomes \<open>new\<close>; with an empty \<open>old\<close> Python puts \<open>new\<close> around every
  character.
\<close>

fun py_replace :: "ustr \<Rightarrow> ustr \<Rightarrow> ustr \<Rightarrow> ustr" where
  "py_replace old new [] = (if old = [] then new else [])"
| "py_replace old new (c # cs) =
     (if old = [] then new @ c # py_replace old new cs
      else if starts_with old (c # cs) then new @ py_replace old new (drop (length old - 1) cs)
      else c # py_replace old new cs)"

text \<open>\<open>str(x)\<close> of an optional text, as an f-string renders it: \<open>None\<close> prints as the word.\<close>

definition py_str :: "ustr option \<Rightarrow> ustr" where
  "py_str x = (case x of None \<Rightarrow> [0x4E, 0x6F, 0x6E, 0x65] | Some s \<Rightarrow> s)"

text \<open>Truth value of an optional text: \<open>None\<close> and the empty text are false.\<close>

definition truthy :: "ustr option \<Rightarrow> bool" where
  "truthy x = (case x of None \<Rightarrow> False | Some s \<Rightarrow> s \<noteq> [])"

section \<open>Routes and their keys\<close>

text \<open>
  The dataclass \<open>Route\<close> of \<open>horizontal_table_parser.py\<close>.  Its field names are Chinese
  in the source; here they are translated, in the source's order: origin, destination,
  via, trade remark, first and last trading date, actual weight, billing weight, total
  volume, goods value, \<open>_raw\<close> and \<open>_sheet_name\<close>.  A number is kept as the decimal text
  that \<open>float\<close> converts, see below.
\<close>

record route =
  origin :: "ustr option"
  destination :: "ustr option"
  via :: "ustr option"
  trade_remark :: "ustr option"
  trade_start_date :: "ustr option"
  trade_end_date :: "ustr option"
  actual_weight :: "ustr option"
  billing_weight :: "ustr option"
  total_volume :: "ustr option"
  goods_value :: "ustr option"
  raw :: "ustr option"
  sheet_name :: "ustr option"

text \<open>\<open>Route()\<close>: every field defaults to \<open>None\<close>.\<close>

definition empty_route :: route where
  "empty_route = \<lparr> origin = None, destination = None, via = None, trade_remark = None,
     trade_start_date = None, trade_end_date = None, actual_weight = None,
     billing_weight = None, total_volume = None, goods_value = None, raw = None,
     sheet_name = None \<rparr>"

text \<open>\<open>Route.get_unique_key\<close>: the four fields rendered and joined by a vertical bar.\<close>

definition get_unique_key :: "route \<Rightarrow> ustr" where
  "get_unique_key r =
     py_str (origin r) @ [0x7C] @ py_str (destination r) @ [0x7C] @ py_str (via r) @ [0x7C] @
     py_str (sheet_name r)"

section \<open>The location whitelist\<close>

text \<open>
  \<open>scripts/data/location_whitelist.py\<close>.  The whitelist is a Python set; it is listed here
  in the order of the source, section by section.  Only membership and the existence of
  an entry with some property are ever asked of it, so the order does not matter.
\<close>

text \<open>Names of mainland China (from line 8 of \<open>location_whitelist.py\<close>).\<close>

definition wl_mainland_china :: "ustr list" where
  "wl_mainland_china =
    [[0x6DF1, 0x5733], [0x5E7F, 0x5DDE], [0x4E0A, 0x6D77], [0x5317, 0x4EAC], [0x5929, 0x6D25],
     [0x91CD, 0x5E86], [0x6210, 0x90FD], [0x897F, 0x5B89], [0x6B66, 0x6C49], [0x676D, 0x5DDE],
     [0x5357, 0x4EAC], [0x82CF, 0x5DDE], [0x5B81, 0x6CE2], [0x9752, 0x5C9B], [0x5927, 0x8FDE],
     [0x53A6, 0x95E8], [0x4E1C, 0x839E], [0x4F5B, 0x5C71], [0x4E2D, 0x5C71], [0x73E0, 0x6D77],
     [0x60E0, 0x5DDE], [0x6C5F, 0x95E8], [0x8087, 0x5E86], [0x6C55, 0x5934], [0x798F, 0x5DDE],
     [0x6CC9, 0x5DDE], [0x6E29, 0x5DDE], [0x53F0, 0x5DDE], [0x4E49, 0x4E4C], [0x90D1, 0x5DDE],
     [0x957F, 0x6C99], [0x5408, 0x80A5], [0x5357, 0x660C], [0x6C88, 0x9633],
     [0x54C8, 0x5C14, 0x6EE8], [0x957F, 0x6625], [0x547C, 0x548C, 0x6D69, 0x7279],
     [0x4E4C, 0x9C81, 0x6728, 0x9F50], [0x5170, 0x5DDE], [0x94F6, 0x5DDD], [0x897F, 0x5B81],
     [0x6606, 0x660E], [0x8D35, 0x9633], [0x5357, 0x5B81], [0x6D77, 0x53E3], [0x4E09, 0x4E9A],
     [0x62C9, 0x8428], [0x77F3, 0x5BB6, 0x5E84], [0x592A, 0x539F], [0x6D4E, 0x5357],
     [0x70DF, 0x53F0], [0x5A01, 0x6D77], [0x6DC4, 0x535A], [0x6F4D, 0x574A], [0x4E34, 0x6C82],
     [0x56FD, 0x5185], [0x4E2D, 0x56FD], [0x5185, 0x5730], [0x5927, 0x9646], [0x5E7F, 0x4E1C],
     [0x6D59, 0x6C5F], [0x6C5F, 0x82CF], [0x5C71, 0x4E1C], [0x6CB3, 0x5317], [0x6CB3, 0x5357],
     [0x6E56, 0x5317], [0x6E56, 0x5357], [0x56DB, 0x5DDD], [0x9655, 0x897F], [0x798F, 0x5EFA],
     [0x5B89, 0x5FBD]]"

text \<open>Names of Hong Kong, Macau and Taiwan (from line 19 of \<open>location_whitelist.py\<close>).\<close>

definition wl_hongkong_macau_taiwan :: "ustr list" where
  "wl_hongkong_macau_taiwan =
    [[0x9999, 0x6E2F], [0x6FB3, 0x95E8], [0x53F0, 0x6E7E], [0x53F0, 0x5317], [0x9AD8, 0x96C4],
     [0x53F0, 0x4E2D], [0x48, 0x4B], [0x48, 0x6F, 0x6E, 0x67, 0x4B, 0x6F, 0x6E, 0x67]]"

text \<open>Names of East Asia (from line 22 of \<open>location_whitelist.py\<close>).\<close>

definition wl_east_asia :: "ustr list" where
  "wl_east_asia =
    [[0x65E5, 0x672C], [0x4E1C, 0x4EAC], [0x5927, 0x962A], [0x540D, 0x53E4, 0x5C4B],
     [0x6A2A, 0x6EE8], [0x795E, 0x6237], [0x798F, 0x5188], [0x672D, 0x5E4C], [0x97E9, 0x56FD],
     [0x9996, 0x5C14], [0x91DC, 0x5C71], [0x4EC1, 0x5DDD], [0x53, 0x65, 0x6F, 0x75, 0x6C],
     [0x42, 0x75, 0x73, 0x61, 0x6E], [0x671D, 0x9C9C], [0x5E73, 0x58E4], [0x8499, 0x53E4],
     [0x4E4C, 0x5170, 0x5DF4, 0x6258]]"

text \<open>Names of South-East Asia (from line 28 of \<open>location_whitelist.py\<close>).\<close>

definition wl_southeast_asia :: "ustr list" where
  "wl_southeast_asia =
    [[0x65B0, 0x52A0, 0x5761], [0x53, 0x69, 0x6E, 0x67, 0x61, 0x70, 0x6F, 0x72, 0x65],
     [0x53, 0x47], [0x72EE, 0x57CE], [0x9A6C, 0x6765, 0x897F, 0x4E9A], [0x9A6C, 0x6765],
     [0x5409, 0x9686, 0x5761], [0x69DF, 0x57CE], [0x67D4, 0x4F5B], [0x65B0, 0x5C71],
     [0x5DF4, 0x751F, 0x6E2F], [0x4D, 0x61, 0x6C, 0x61, 0x79, 0x73, 0x69, 0x61],
     [0x6CF0, 0x56FD], [0x66FC, 0x8C37], [0x42, 0x61, 0x6E, 0x67, 0x6B, 0x6F, 0x6B],
     [0x6E05, 0x8FC8], [0x666E, 0x5409], [0x8D8A, 0x5357], [0x6CB3, 0x5185],
     [0x80E1, 0x5FD7, 0x660E], [0x56, 0x69, 0x65, 0x74, 0x6E, 0x61, 0x6D], [0x897F, 0x8D21],
     [0x83F2, 0x5F8B, 0x5BBE], [0x9A6C, 0x5C3C, 0x62C9], [0x4D, 0x61, 0x6E, 0x69, 0x6C, 0x61],
     [0x5BBF, 0x52A1], [0x5370, 0x5EA6, 0x5C3C, 0x897F, 0x4E9A], [0x5370, 0x5C3C],
     [0x96C5, 0x52A0, 0x8FBE], [0x4A, 0x61, 0x6B, 0x61, 0x72, 0x74, 0x61],
     [0x5DF4, 0x5398, 0x5C9B], [0x7F05, 0x7538], [0x4EF0, 0x5149],
     [0x4D, 0x79, 0x61, 0x6E, 0x6D, 0x61, 0x72], [0x67EC, 0x57D4, 0x5BE8], [0x91D1, 0x8FB9],
     [0x43, 0x61, 0x6D, 0x62, 0x6F, 0x64, 0x69, 0x61], [0x8001, 0x631D], [0x4E07, 0x8C61],
     [0x6587, 0x83B1], [0x65AF, 0x91CC, 0x5DF4, 0x52A0, 0x6E7E], [0x4E1C, 0x5E1D, 0x6C76]]"

text \<open>Names of South Asia (from line 41 of \<open>location_whitelist.py\<close>).\<close>

definition wl_south_asia :: "ustr list" where
  "wl_south_asia =
    [[0x5370, 0x5EA6], [0x65B0, 0x5FB7, 0x91CC], [0x5B5F, 0x4E70],
     [0x73ED, 0x52A0, 0x7F57, 0x5C14], [0x91D1, 0x5948], [0x52A0, 0x5C14, 0x5404, 0x7B54],
     [0x49, 0x6E, 0x64, 0x69, 0x61], [0x44, 0x65, 0x6C, 0x68, 0x69],
     [0x5DF4, 0x57FA, 0x65AF, 0x5766], [0x4F0A, 0x65AF, 0x5170, 0x5821],
     [0x5361, 0x62C9, 0x5947], [0x50, 0x61, 0x6B, 0x69, 0x73, 0x74, 0x61, 0x6E],
     [0x5B5F, 0x52A0, 0x62C9], [0x8FBE, 0x5361],
     [0x42, 0x61, 0x6E, 0x67, 0x6C, 0x61, 0x64, 0x65, 0x73, 0x68],
     [0x65AF, 0x91CC, 0x5170, 0x5361], [0x79D1, 0x4F26, 0x5761],
     [0x53, 0x72, 0x69, 0x4C, 0x61, 0x6E, 0x6B, 0x61], [0x5C3C, 0x6CCA, 0x5C14],
     [0x52A0, 0x5FB7, 0x6EE1, 0x90FD], [0x4E0D, 0x4E39], [0x5EF7, 0x5E03],
     [0x9A6C, 0x5C14, 0x4EE3, 0x592B], [0x9A6C, 0x7D2F]]"

text \<open>Names of the Middle East (from line 50 of \<open>location_whitelist.py\<close>).\<close>

definition wl_middle_east :: "ustr list" where
  "wl_middle_east =
    [[0x6C99, 0x7279], [0x6C99, 0x7279, 0x963F, 0x62C9, 0x4F2F], [0x5229, 0x96C5, 0x5F97],
     [0x5409, 0x8FBE], [0x53, 0x61, 0x75, 0x64, 0x69], [0x52, 0x69, 0x79, 0x61, 0x64, 0x68],
     [0x963F, 0x8054, 0x914B], [0x8FEA, 0x62DC], [0x963F, 0x5E03, 0x624E, 0x6BD4],
     [0x44, 0x75, 0x62, 0x61, 0x69], [0x55, 0x41, 0x45],
     [0x41, 0x62, 0x75, 0x44, 0x68, 0x61, 0x62, 0x69], [0x5361, 0x5854, 0x5C14],
     [0x591A, 0x54C8], [0x51, 0x61, 0x74, 0x61, 0x72], [0x44, 0x6F, 0x68, 0x61],
     [0x79D1, 0x5A01, 0x7279], [0x4B, 0x75, 0x77, 0x61, 0x69, 0x74], [0x5DF4, 0x6797],
     [0x42, 0x61, 0x68, 0x72, 0x61, 0x69, 0x6E], [0x963F, 0x66FC],
     [0x9A6C, 0x65AF, 0x5580, 0x7279], [0x4F, 0x6D, 0x61, 0x6E], [0x4F0A, 0x6717],
     [0x5FB7, 0x9ED1, 0x5170], [0x49, 0x72, 0x61, 0x6E], [0x4F0A, 0x62C9, 0x514B],
     [0x5DF4, 0x683C, 0x8FBE], [0x49, 0x72, 0x61, 0x71], [0x53D9, 0x5229, 0x4E9A],
     [0x5927, 0x9A6C, 0x58EB, 0x9769], [0x7EA6, 0x65E6], [0x5B89, 0x66FC],
     [0x4A, 0x6F, 0x72, 0x64, 0x61, 0x6E], [0x4EE5, 0x8272, 0x5217],
     [0x7279, 0x62C9, 0x7EF4, 0x592B], [0x8036, 0x8DEF, 0x6492, 0x51B7],
     [0x49, 0x73, 0x72, 0x61, 0x65, 0x6C], [0x9ECE, 0x5DF4, 0x5AE9], [0x8D1D, 0x9C81, 0x7279],
     [0x4E5F, 0x95E8], [0x8428, 0x90A3], [0x571F, 0x8033, 0x5176],
     [0x4F0A, 0x65AF, 0x5766, 0x5E03, 0x5C14], [0x5B89, 0x5361, 0x62C9],
     [0x54, 0x75, 0x72, 0x6B, 0x65, 0x79], [0x49, 0x73, 0x74, 0x61, 0x6E, 0x62, 0x75, 0x6C]]"

text \<open>Names of Europe (from line 66 of \<open>location_whitelist.py\<close>).\<close>

definition wl_europe :: "ustr list" where
  "wl_europe =
    [[0x82F1, 0x56FD], [0x4F26, 0x6566], [0x66FC, 0x5F7B, 0x65AF, 0x7279],
     [0x4F2F, 0x660E, 0x7FF0], [0x55, 0x4B], [0x4C, 0x6F, 0x6E, 0x64, 0x6F, 0x6E],
     [0x45, 0x6E, 0x67, 0x6C, 0x61, 0x6E, 0x64], [0x6CD5, 0x56FD], [0x5DF4, 0x9ECE],
     [0x9A6C, 0x8D5B], [0x91CC, 0x6602], [0x46, 0x72, 0x61, 0x6E, 0x63, 0x65],
     [0x50, 0x61, 0x72, 0x69, 0x73], [0x5FB7, 0x56FD], [0x67CF, 0x6797], [0x6C49, 0x5821],
     [0x6155, 0x5C3C, 0x9ED1], [0x6CD5, 0x5170, 0x514B, 0x798F],
     [0x47, 0x65, 0x72, 0x6D, 0x61, 0x6E, 0x79],
     [0x46, 0x72, 0x61, 0x6E, 0x6B, 0x66, 0x75, 0x72, 0x74],
     [0x42, 0x65, 0x72, 0x6C, 0x69, 0x6E], [0x8377, 0x5170],
     [0x963F, 0x59C6, 0x65AF, 0x7279, 0x4E39], [0x9E7F, 0x7279, 0x4E39],
     [0x4E, 0x65, 0x74, 0x68, 0x65, 0x72, 0x6C, 0x61, 0x6E, 0x64, 0x73],
     [0x41, 0x6D, 0x73, 0x74, 0x65, 0x72, 0x64, 0x61, 0x6D], [0x6BD4, 0x5229, 0x65F6],
     [0x5E03, 0x9C81, 0x585E, 0x5C14], [0x5B89, 0x7279, 0x536B, 0x666E],
     [0x42, 0x65, 0x6C, 0x67, 0x69, 0x75, 0x6D],
     [0x42, 0x72, 0x75, 0x73, 0x73, 0x65, 0x6C, 0x73], [0x5362, 0x68EE, 0x5821],
     [0x4C, 0x75, 0x78, 0x65, 0x6D, 0x62, 0x6F, 0x75, 0x72, 0x67], [0x745E, 0x58EB],
     [0x82CF, 0x9ECE, 0x4E16], [0x65E5, 0x5185, 0x74E6],
     [0x53, 0x77, 0x69, 0x74, 0x7A, 0x65, 0x72, 0x6C, 0x61, 0x6E, 0x64],
     [0x5A, 0x75, 0x72, 0x69, 0x63, 0x68], [0x5965, 0x5730, 0x5229], [0x7EF4, 0x4E5F, 0x7EB3],
     [0x41, 0x75, 0x73, 0x74, 0x72, 0x69, 0x61], [0x56, 0x69, 0x65, 0x6E, 0x6E, 0x61],
     [0x897F, 0x73ED, 0x7259], [0x9A6C, 0x5FB7, 0x91CC], [0x5DF4, 0x585E, 0x7F57, 0x90A3],
     [0x53, 0x70, 0x61, 0x69, 0x6E], [0x4D, 0x61, 0x64, 0x72, 0x69, 0x64],
     [0x42, 0x61, 0x72, 0x63, 0x65, 0x6C, 0x6F, 0x6E, 0x61], [0x8461, 0x8404, 0x7259],
     [0x91CC, 0x65AF, 0x672C], [0x50, 0x6F, 0x72, 0x74, 0x75, 0x67, 0x61, 0x6C],
     [0x4C, 0x69, 0x73, 0x62, 0x6F, 0x6E], [0x610F, 0x5927, 0x5229], [0x7F57, 0x9A6C],
     [0x7C73, 0x5170], [0x5A01, 0x5C3C, 0x65AF], [0x49, 0x74, 0x61, 0x6C, 0x79],
     [0x52, 0x6F, 0x6D, 0x65], [0x4D, 0x69, 0x6C, 0x61, 0x6E], [0x5E0C, 0x814A],
     [0x96C5, 0x5178], [0x47, 0x72, 0x65, 0x65, 0x63, 0x65],
     [0x41, 0x74, 0x68, 0x65, 0x6E, 0x73], [0x9A6C, 0x8033, 0x4ED6],
     [0x4D, 0x61, 0x6C, 0x74, 0x61], [0x745E, 0x5178],
     [0x65AF, 0x5FB7, 0x54E5, 0x5C14, 0x6469], [0x53, 0x77, 0x65, 0x64, 0x65, 0x6E],
     [0x53, 0x74, 0x6F, 0x63, 0x6B, 0x68, 0x6F, 0x6C, 0x6D], [0x632A, 0x5A01],
     [0x5965, 0x65AF, 0x9646], [0x4E, 0x6F, 0x72, 0x77, 0x61, 0x79], [0x4F, 0x73, 0x6C, 0x6F],
     [0x82AC, 0x5170], [0x8D6B, 0x5C14, 0x8F9B, 0x57FA],
     [0x46, 0x69, 0x6E, 0x6C, 0x61, 0x6E, 0x64],
     [0x48, 0x65, 0x6C, 0x73, 0x69, 0x6E, 0x6B, 0x69], [0x4E39, 0x9EA6],
     [0x54E5, 0x672C, 0x54C8, 0x6839], [0x44, 0x65, 0x6E, 0x6D, 0x61, 0x72, 0x6B],
     [0x43, 0x6F, 0x70, 0x65, 0x6E, 0x68, 0x61, 0x67, 0x65, 0x6E], [0x51B0, 0x5C9B],
     [0x96F7, 0x514B, 0x96C5, 0x672A, 0x514B], [0x49, 0x63, 0x65, 0x6C, 0x61, 0x6E, 0x64],
     [0x4FC4, 0x7F57, 0x65AF], [0x83AB, 0x65AF, 0x79D1], [0x5723, 0x5F7C, 0x5F97, 0x5821],
     [0x52, 0x75, 0x73, 0x73, 0x69, 0x61], [0x4D, 0x6F, 0x73, 0x63, 0x6F, 0x77],
     [0x6CE2, 0x5170], [0x534E, 0x6C99], [0x50, 0x6F, 0x6C, 0x61, 0x6E, 0x64],
     [0x57, 0x61, 0x72, 0x73, 0x61, 0x77], [0x6377, 0x514B], [0x5E03, 0x62C9, 0x683C],
     [0x43, 0x7A, 0x65, 0x63, 0x68], [0x50, 0x72, 0x61, 0x67, 0x75, 0x65],
     [0x5308, 0x7259, 0x5229], [0x5E03, 0x8FBE, 0x4F69, 0x65AF],
     [0x48, 0x75, 0x6E, 0x67, 0x61, 0x72, 0x79],
     [0x42, 0x75, 0x64, 0x61, 0x70, 0x65, 0x73, 0x74], [0x7F57, 0x9A6C, 0x5C3C, 0x4E9A],
     [0x5E03, 0x52A0, 0x52D2, 0x65AF, 0x7279], [0x52, 0x6F, 0x6D, 0x61, 0x6E, 0x69, 0x61],
     [0x4FDD, 0x52A0, 0x5229, 0x4E9A], [0x7D22, 0x975E, 0x4E9A],
     [0x42, 0x75, 0x6C, 0x67, 0x61, 0x72, 0x69, 0x61], [0x4E4C, 0x514B, 0x5170],
     [0x57FA, 0x8F85], [0x55, 0x6B, 0x72, 0x61, 0x69, 0x6E, 0x65], [0x4B, 0x69, 0x65, 0x76],
     [0x7231, 0x5C14, 0x5170]]"

text \<open>Names of North America (from line 100 of \<open>location_whitelist.py\<close>).\<close>

definition wl_north_america :: "ustr list" where
  "wl_north_america =
    [[0x7F8E, 0x56FD], [0x55, 0x53, 0x41], [0x55, 0x53],
     [0x41, 0x6D, 0x65, 0x72, 0x69, 0x63, 0x61], [0x7F8E], [0x7EBD, 0x7EA6],
     [0x6D1B, 0x6749, 0x77F6], [0x829D, 0x52A0, 0x54E5], [0x4F11, 0x65AF, 0x987F],
     [0x51E4, 0x51F0, 0x57CE], [0x8D39, 0x57CE], [0x5723, 0x5B89, 0x4E1C, 0x5C3C, 0x5965],
     [0x5723, 0x5730, 0x4E9A, 0x54E5], [0x8FBE, 0x62C9, 0x65AF], [0x65E7, 0x91D1, 0x5C71],
     [0x897F, 0x96C5, 0x56FE], [0x6CE2, 0x58EB, 0x987F], [0x8FC8, 0x963F, 0x5BC6],
     [0x4E9A, 0x7279, 0x5170, 0x5927], [0x4E, 0x65, 0x77, 0x59, 0x6F, 0x72, 0x6B],
     [0x4C, 0x6F, 0x73, 0x41, 0x6E, 0x67, 0x65, 0x6C, 0x65, 0x73],
     [0x43, 0x68, 0x69, 0x63, 0x61, 0x67, 0x6F], [0x48, 0x6F, 0x75, 0x73, 0x74, 0x6F, 0x6E],
     [0x44, 0x61, 0x6C, 0x6C, 0x61, 0x73], [0x53, 0x65, 0x61, 0x74, 0x74, 0x6C, 0x65],
     [0x52A0, 0x62FF, 0x5927], [0x591A, 0x4F26, 0x591A], [0x6E29, 0x54E5, 0x534E],
     [0x8499, 0x7279, 0x5229, 0x5C14], [0x43, 0x61, 0x6E, 0x61, 0x64, 0x61],
     [0x54, 0x6F, 0x72, 0x6F, 0x6E, 0x74, 0x6F],
     [0x56, 0x61, 0x6E, 0x63, 0x6F, 0x75, 0x76, 0x65, 0x72], [0x58A8, 0x897F, 0x54E5],
     [0x58A8, 0x897F, 0x54E5, 0x57CE], [0x4D, 0x65, 0x78, 0x69, 0x63, 0x6F]]"

text \<open>Names of South America (from line 108 of \<open>location_whitelist.py\<close>).\<close>

definition wl_south_america :: "ustr list" where
  "wl_south_america =
    [[0x5DF4, 0x897F], [0x5723, 0x4FDD, 0x7F57], [0x91CC, 0x7EA6, 0x70ED, 0x5185, 0x5362],
     [0x42, 0x72, 0x61, 0x7A, 0x69, 0x6C], [0x53, 0x61, 0x6F, 0x50, 0x61, 0x75, 0x6C, 0x6F],
     [0x963F, 0x6839, 0x5EF7], [0x5E03, 0x5B9C, 0x8BFA, 0x65AF, 0x827E, 0x5229, 0x65AF],
     [0x41, 0x72, 0x67, 0x65, 0x6E, 0x74, 0x69, 0x6E, 0x61],
     [0x42, 0x75, 0x65, 0x6E, 0x6F, 0x73, 0x41, 0x69, 0x72, 0x65, 0x73], [0x667A, 0x5229],
     [0x5723, 0x5730, 0x4E9A, 0x54E5], [0x43, 0x68, 0x69, 0x6C, 0x65],
     [0x53, 0x61, 0x6E, 0x74, 0x69, 0x61, 0x67, 0x6F], [0x79D8, 0x9C81], [0x5229, 0x9A6C],
     [0x50, 0x65, 0x72, 0x75], [0x4C, 0x69, 0x6D, 0x61], [0x54E5, 0x4F26, 0x6BD4, 0x4E9A],
     [0x6CE2, 0x54E5, 0x5927], [0x43, 0x6F, 0x6C, 0x6F, 0x6D, 0x62, 0x69, 0x61],
     [0x42, 0x6F, 0x67, 0x6F, 0x74, 0x61], [0x59D4, 0x5185, 0x745E, 0x62C9],
     [0x52A0, 0x62C9, 0x52A0, 0x65AF], [0x56, 0x65, 0x6E, 0x65, 0x7A, 0x75, 0x65, 0x6C, 0x61],
     [0x5384, 0x74DC, 0x591A, 0x5C14], [0x57FA, 0x591A],
     [0x45, 0x63, 0x75, 0x61, 0x64, 0x6F, 0x72], [0x73BB, 0x5229, 0x7EF4, 0x4E9A],
     [0x62C9, 0x5DF4, 0x65AF], [0x42, 0x6F, 0x6C, 0x69, 0x76, 0x69, 0x61]]"

text \<open>Names of Oceania (from line 118 of \<open>location_whitelist.py\<close>).\<close>

definition wl_oceania :: "ustr list" where
  "wl_oceania =
    [[0x6FB3, 0x5927, 0x5229, 0x4E9A], [0x6FB3, 0x6D32], [0x6089, 0x5C3C],
     [0x58A8, 0x5C14, 0x672C], [0x5E03, 0x91CC, 0x65AF, 0x73ED], [0x73C0, 0x65AF],
     [0x41, 0x75, 0x73, 0x74, 0x72, 0x61, 0x6C, 0x69, 0x61],
     [0x53, 0x79, 0x64, 0x6E, 0x65, 0x79],
     [0x4D, 0x65, 0x6C, 0x62, 0x6F, 0x75, 0x72, 0x6E, 0x65], [0x65B0, 0x897F, 0x5170],
     [0x5965, 0x514B, 0x5170], [0x60E0, 0x7075, 0x987F],
     [0x4E, 0x65, 0x77, 0x5A, 0x65, 0x61, 0x6C, 0x61, 0x6E, 0x64],
     [0x41, 0x75, 0x63, 0x6B, 0x6C, 0x61, 0x6E, 0x64], [0x6590, 0x6D4E],
     [0x46, 0x69, 0x6A, 0x69], [0x5DF4, 0x5E03, 0x4E9A, 0x65B0, 0x51E0, 0x5185, 0x4E9A],
     [0x50, 0x4E, 0x47]]"

text \<open>Names of Africa (from line 124 of \<open>location_whitelist.py\<close>).\<close>

definition wl_africa :: "ustr list" where
  "wl_africa =
    [[0x5357, 0x975E], [0x7EA6, 0x7FF0, 0x5185, 0x65AF, 0x5821], [0x5F00, 0x666E, 0x6566],
     [0x53, 0x6F, 0x75, 0x74, 0x68, 0x41, 0x66, 0x72, 0x69, 0x63, 0x61],
     [0x4A, 0x6F, 0x68, 0x61, 0x6E, 0x6E, 0x65, 0x73, 0x62, 0x75, 0x72, 0x67],
     [0x57C3, 0x53CA], [0x5F00, 0x7F57], [0x45, 0x67, 0x79, 0x70, 0x74],
     [0x43, 0x61, 0x69, 0x72, 0x6F], [0x5C3C, 0x65E5, 0x5229, 0x4E9A],
     [0x62C9, 0x5404, 0x65AF], [0x4E, 0x69, 0x67, 0x65, 0x72, 0x69, 0x61],
     [0x4C, 0x61, 0x67, 0x6F, 0x73], [0x80AF, 0x5C3C, 0x4E9A], [0x5185, 0x7F57, 0x6BD5],
     [0x4B, 0x65, 0x6E, 0x79, 0x61], [0x4E, 0x61, 0x69, 0x72, 0x6F, 0x62, 0x69],
     [0x57C3, 0x585E, 0x4FC4, 0x6BD4, 0x4E9A],
     [0x4E9A, 0x7684, 0x65AF, 0x4E9A, 0x8D1D, 0x5DF4],
     [0x45, 0x74, 0x68, 0x69, 0x6F, 0x70, 0x69, 0x61], [0x6469, 0x6D1B, 0x54E5],
     [0x5361, 0x8428, 0x5E03, 0x5170, 0x5361], [0x4D, 0x6F, 0x72, 0x6F, 0x63, 0x63, 0x6F],
     [0x963F, 0x5C14, 0x53CA, 0x5229, 0x4E9A], [0x963F, 0x5C14, 0x53CA, 0x5C14],
     [0x41, 0x6C, 0x67, 0x65, 0x72, 0x69, 0x61], [0x5766, 0x6851, 0x5C3C, 0x4E9A],
     [0x8FBE, 0x7D2F, 0x65AF, 0x8428, 0x62C9, 0x59C6],
     [0x54, 0x61, 0x6E, 0x7A, 0x61, 0x6E, 0x69, 0x61], [0x52A0, 0x7EB3],
     [0x963F, 0x514B, 0x62C9], [0x47, 0x68, 0x61, 0x6E, 0x61]]"

text \<open>Names of regions and ports (from line 135 of \<open>location_whitelist.py\<close>).\<close>

definition wl_regions_and_ports :: "ustr list" where
  "wl_regions_and_ports =
    [[0x6B27, 0x6D32], [0x45, 0x75, 0x72, 0x6F, 0x70, 0x65], [0x4E9A, 0x6D32],
     [0x41, 0x73, 0x69, 0x61], [0x7F8E, 0x6D32],
     [0x41, 0x6D, 0x65, 0x72, 0x69, 0x63, 0x61, 0x73], [0x9E7F, 0x7279, 0x4E39, 0x6E2F],
     [0x5B89, 0x7279, 0x536B, 0x666E, 0x6E2F], [0x6C49, 0x5821, 0x6E2F],
     [0x4E0D, 0x6765, 0x6885, 0x6E2F], [0x6D1B, 0x6749, 0x77F6, 0x6E2F],
     [0x957F, 0x6EE9, 0x6E2F], [0x7EBD, 0x7EA6, 0x6E2F], [0x4F11, 0x65AF, 0x987F, 0x6E2F],
     [0x65B0, 0x52A0, 0x5761, 0x6E2F], [0x9999, 0x6E2F, 0x6E2F], [0x4E0A, 0x6D77, 0x6E2F],
     [0x6DF1, 0x5733, 0x6E2F], [0x5B81, 0x6CE2, 0x6E2F], [0x76D0, 0x7530], [0x86C7, 0x53E3],
     [0x8D64, 0x6E7E], [0x5357, 0x6C99], [0x9EC4, 0x57D4]]"

text \<open>Names of other common short names (from line 142 of \<open>location_whitelist.py\<close>).\<close>

definition wl_common_short_names :: "ustr list" where
  "wl_common_short_names =
    [[0x6D77, 0x5916], [0x5883, 0x5916], [0x56FD, 0x9645], [0x5168, 0x7403], [0x4E16, 0x754C]]"

definition LOCATION_WHITELIST :: "ustr list" where
  "LOCATION_WHITELIST =
     wl_mainland_china @ wl_hongkong_macau_taiwan @ wl_east_asia @
     wl_southeast_asia @ wl_south_asia @ wl_middle_east @
     wl_europe @ wl_north_america @ wl_south_america @
     wl_oceania @ wl_africa @ wl_regions_and_ports @
     wl_common_short_names"

text \<open>
  \<open>is_valid_location\<close>: false on the empty text; otherwise the text is trimmed and accepted
  when it is an entry, contains an entry, or is contained in an entry.
\<close>

definition is_valid_location :: "ustr \<Rightarrow> bool" where
  "is_valid_location location =
     (if location = [] then False
      else let loc = strip location in
        loc \<in> set LOCATION_WHITELIST \<or>
        list_ex (\<lambda>valid_loc. py_in valid_loc loc \<or> py_in loc valid_loc) LOCATION_WHITELIST)"

text \<open>
  \<open>clean_location_text\<close>.  Its tables: the leading words it removes (``goods handed
  over at'', ``from'', ``from'', ``per''), and the business words at which it cuts
  (dedicated line, general trade, sea freight, air freight, express, \<dots>, \<open>KGS\<close>, \<open>KG\<close>).
\<close>

definition prefixes :: "ustr list" where
  "prefixes = [[0x8D27, 0x4EA4], [0x4ECE], [0x81EA], [0x6309]]"

definition business_words :: "ustr list" where
  "business_words =
    [[0x4E13, 0x7EBF], [0x4E00, 0x822C, 0x8D38, 0x6613], [0x6D77, 0x8FD0], [0x7A7A, 0x8FD0],
     [0x5FEB, 0x9012], [0x65B9, 0x6848], [0x8D38, 0x6613], [0x4EE3, 0x7406], [0x8D38, 0x4EE3],
     [0x8FC7, 0x6E2F], [0x5FEB, 0x4EF6], [0x6B63, 0x6E05], [0x53CC, 0x6E05],
     [0x5BA3, 0x4F20, 0x518C], [0x4F34, 0x624B, 0x793C], [0x8D27, 0x7269], [0x5BA2, 0x6237],
     [0x63D0, 0x4F9B], [0x91CD, 0x91CF], [0x4B, 0x47, 0x53], [0x4B, 0x47]]"

text \<open>\<open>re.split(r'[...]', text)[0]\<close> for the class of the two colons and the two commas.\<close>

definition before_colon_or_comma :: "ustr \<Rightarrow> ustr" where
  "before_colon_or_comma text = takeWhile (\<lambda>c. c \<notin> set [0xFF1A, 0x3A, 0x2C, 0xFF0C]) text"

text \<open>\<open>text.split(word)[0]\<close>: the part before the first occurrence of \<open>word\<close>.\<close>

definition first_part :: "ustr \<Rightarrow> ustr \<Rightarrow> ustr" where
  "first_part word text = (case py_split word text of [] \<Rightarrow> [] | p # ps \<Rightarrow> p)"

definition clean_location_text :: "ustr \<Rightarrow> ustr" where
  "clean_location_text text0 =
     (if text0 = [] then []
      else
        let text1 = foldl (\<lambda>t prefix. if starts_with prefix t then drop (length prefix) t else t)
                      text0 prefixes;
            text2 = before_colon_or_comma text1;
            text3 = (case find (\<lambda>word. py_in word text2) business_words of
                       None \<Rightarrow> text2
                     | Some word \<Rightarrow> strip (first_part word text2))
        in strip text3)"

section \<open>Cleaning a location (\<open>RouteExtractor._deep_clean_location\<close>)\<close>

text \<open>The extractor's business keywords, in the order of the source.\<close>

definition business_keywords :: "ustr list" where
  "business_keywords =
    [[0x6D77, 0x8FD0], [0x7A7A, 0x8FD0], [0x5FEB, 0x9012], [0x94C1, 0x8DEF], [0x9646, 0x8FD0],
     [0x5361, 0x8F66], [0x5FEB, 0x4EF6], [0x822A, 0x7A7A], [0x6D77, 0x6D3E], [0x7A7A, 0x6D3E],
     [0x94C1, 0x8FD0], [0x4E13, 0x7EBF], [0x6B63, 0x6E05], [0x53CC, 0x6E05], [0x5305, 0x7A0E],
     [0x5230, 0x95E8], [0x5230, 0x6E2F], [0x9884, 0x4F30], [0x44, 0x44, 0x50],
     [0x44, 0x41, 0x50], [0x44, 0x44, 0x55], [0x46, 0x4F, 0x42], [0x43, 0x49, 0x46],
     [0x4E00, 0x822C, 0x8D38, 0x6613], [0x8D38, 0x4EE3], [0x8D38, 0x6613], [0x6210, 0x672C],
     [0x8BE2, 0x4EF7], [0x65B9, 0x6848], [0x4EE3, 0x7406], [0x8FC7, 0x6E2F], [0x62A5, 0x4EF7],
     [0x660E, 0x7EC6], [0x8D39, 0x7528], [0x6C47, 0x603B], [0x9884, 0x7B97], [0x6838, 0x7B97],
     [0x7ED3, 0x7B97], [0x8D27, 0x4EA4], [0x8D27, 0x5230], [0x5BA3, 0x4F20, 0x518C],
     [0x4F34, 0x624B, 0x793C], [0x8D27, 0x7269], [0x6837, 0x54C1], [0x8BBE, 0x5907],
     [0x4EA7, 0x54C1], [0x5BA2, 0x6237], [0x63D0, 0x4F9B], [0x91CD, 0x91CF], [0x6570, 0x91CF]]"

text \<open>
  One keyword of the inner loop: when the keyword occurs, the text becomes the part
  before it, or, when that part is blank, the part after it; when both are blank the loop
  goes on to the next keyword.
\<close>

definition keyword_cut :: "ustr \<Rightarrow> ustr \<Rightarrow> ustr option" where
  "keyword_cut keyword cleaned =
     (if py_in keyword cleaned then
        (case py_split keyword cleaned of
           [] \<Rightarrow> None
         | p0 # rest \<Rightarrow>
             if strip p0 \<noteq> [] then Some (strip p0)
             else (case rest of
                     [] \<Rightarrow> None
                   | p1 # _ \<Rightarrow> if strip p1 \<noteq> [] then Some (strip p1) else None))
      else None)"

text \<open>The inner loop: the first keyword that cuts ends the loop (\<open>break\<close>).\<close>

fun first_cut :: "ustr list \<Rightarrow> ustr \<Rightarrow> ustr" where
  "first_cut [] cleaned = cleaned"
| "first_cut (keyword # keywords) cleaned =
     (case keyword_cut keyword cleaned of
        Some c \<Rightarrow> c
      | None \<Rightarrow> first_cut keywords cleaned)"

text \<open>The outer loop: at most \<open>n\<close> passes, stopping at the first pass that changes nothing.\<close>

fun keyword_rounds :: "nat \<Rightarrow> ustr \<Rightarrow> ustr" where
  "keyword_rounds 0 cleaned = cleaned"
| "keyword_rounds (Suc n) cleaned =
     (let c = first_cut business_keywords cleaned
      in if c = cleaned then cleaned else keyword_rounds n c)"

text \<open>The punctuation stripped from both ends, and the core place names of the last step.\<close>

definition edge_punctuation :: "uchar list" where
  "edge_punctuation = [0xFF1A, 0x3A, 0x2C, 0xFF0C, 0x3002, 0x2E, 0x3001, 0x20, 0x9, 0xA, 0x5B, 0x5D, 0x3010, 0x3011, 0x28, 0x29]"

definition core_locations :: "ustr list" where
  "core_locations =
    [[0x6DF1, 0x5733], [0x4E0A, 0x6D77], [0x5317, 0x4EAC], [0x5E7F, 0x5DDE], [0x9999, 0x6E2F],
     [0x6FB3, 0x95E8], [0x65B0, 0x52A0, 0x5761], [0x5370, 0x5EA6], [0x6CF0, 0x56FD],
     [0x8D8A, 0x5357], [0x9A6C, 0x6765, 0x897F, 0x4E9A], [0x9A6C, 0x6765],
     [0x83F2, 0x5F8B, 0x5BBE], [0x5370, 0x5C3C], [0x96C5, 0x52A0, 0x8FBE],
     [0x80E1, 0x5FD7, 0x660E], [0x67EC, 0x57D4, 0x5BE8], [0x6C99, 0x7279], [0x8FEA, 0x62DC],
     [0x5DF4, 0x57FA, 0x65AF, 0x5766], [0x82F1, 0x56FD], [0x6CD5, 0x56FD], [0x5FB7, 0x56FD],
     [0x6CD5, 0x5170, 0x514B, 0x798F], [0x8377, 0x5170], [0x897F, 0x73ED, 0x7259],
     [0x610F, 0x5927, 0x5229], [0x8FBE, 0x62C9, 0x65AF], [0x8FC8, 0x963F, 0x5BC6],
     [0x5723, 0x4F55, 0x585E], [0x5DF4, 0x897F], [0x5DF4, 0x62FF, 0x9A6C],
     [0x58A8, 0x897F, 0x54E5], [0x6FB3, 0x6D32], [0x6FB3, 0x5927, 0x5229, 0x4E9A],
     [0x65B0, 0x897F, 0x5170], [0x9996, 0x5C14], [0x65E5, 0x672C], [0x97E9, 0x56FD],
     [0x67D4, 0x4F5B], [0x56FD, 0x5185], [0x4E2D, 0x56FD]]"

definition deep_clean_location :: "ustr \<Rightarrow> ustr" where
  "deep_clean_location location =
     (if location = [] then []
      else
        let cleaned = strip_chars edge_punctuation
                        (keyword_rounds 3 (clean_location_text location))
        in if cleaned = [] \<or> length cleaned < 2 then
             (case find (\<lambda>wl_location. py_in wl_location location) core_locations of
                Some wl_location \<Rightarrow> wl_location
              | None \<Rightarrow> cleaned)
           else cleaned)"

section \<open>Cleaning a destination (\<open>HorizontalTableParser._clean_location_suffix\<close>)\<close>

definition business_suffixes :: "ustr list" where
  "business_suffixes =
    [[0x5C0F, 0x8D27, 0x7684], [0x5FEB, 0x9012], [0x4EF7, 0x683C], [0x6210, 0x672C],
     [0x65B9, 0x6848], [0x8BE2, 0x4EF7], [0x9884, 0x4F30], [0x8D38, 0x6613, 0x4EE3, 0x7406],
     [0x8D38, 0x4EE3], [0x4E13, 0x7EBF], [0x6D77, 0x8FD0], [0x7A7A, 0x8FD0], [0x6B63, 0x6E05],
     [0x53CC, 0x6E05], [0x5305, 0x7A0E], [0x5230, 0x95E8], [0x5230, 0x6E2F], [0x7684],
     [0x4E4B], [0x554A], [0x5427], [0x5462]]"

text \<open>One pass: the first suffix the text ends with is removed and the rest trimmed.\<close>

definition strip_one_suffix :: "ustr \<Rightarrow> ustr" where
  "strip_one_suffix cleaned =
     (case find (\<lambda>suffix. ends_with suffix cleaned) business_suffixes of
        None \<Rightarrow> cleaned
      | Some suffix \<Rightarrow> strip (take (length cleaned - length suffix) cleaned))"

fun suffix_rounds :: "nat \<Rightarrow> ustr \<Rightarrow> ustr" where
  "suffix_rounds 0 cleaned = cleaned"
| "suffix_rounds (Suc n) cleaned =
     (let c = strip_one_suffix cleaned
      in if c = cleaned then cleaned else suffix_rounds n c)"

definition clean_location_suffix :: "ustr \<Rightarrow> ustr" where
  "clean_location_suffix location =
     (if location = [] then location
      else let cleaned = suffix_rounds 3 location
           in if length cleaned < 2 then location else cleaned)"

section \<open>Normalised names and the merge signature\<close>

text \<open>
  \<open>Route.normalize_location\<close>.  The table maps a long name to the short one (``Austria
  Vienna'' to ``Vienna'', ``Malaysia'' to the two-character ``Malay'', ``China Hong Kong''
  to ``Hong Kong'', \<dots>); a Python dict keeps the order of the source, and the loop
  replaces one name after the other in that order.
\<close>

definition location_normalization_map :: "(ustr \<times> ustr) list" where
  "location_normalization_map =
    [([0x5965, 0x5730, 0x5229, 0x7EF4, 0x4E5F, 0x7EB3], [0x7EF4, 0x4E5F, 0x7EB3]),
     ([0x5FB7, 0x56FD, 0x6CD5, 0x5170, 0x514B, 0x798F], [0x6CD5, 0x5170, 0x514B, 0x798F]),
     ([0x8377, 0x5170, 0x963F, 0x59C6, 0x65AF, 0x7279, 0x4E39], [0x963F, 0x59C6, 0x65AF, 0x7279, 0x4E39]),
     ([0x82F1, 0x56FD, 0x4F26, 0x6566], [0x4F26, 0x6566]),
     ([0x6CD5, 0x56FD, 0x5DF4, 0x9ECE], [0x5DF4, 0x9ECE]),
     ([0x9A6C, 0x6765, 0x897F, 0x4E9A], [0x9A6C, 0x6765]),
     ([0x5370, 0x5EA6, 0x5C3C, 0x897F, 0x4E9A], [0x5370, 0x5C3C]),
     ([0x4E2D, 0x56FD, 0x9999, 0x6E2F], [0x9999, 0x6E2F]),
     ([0x4E2D, 0x56FD, 0x6DF1, 0x5733], [0x6DF1, 0x5733]),
     ([0x4E2D, 0x56FD, 0x5E7F, 0x5DDE], [0x5E7F, 0x5DDE]),
     ([0x4E2D, 0x56FD, 0x5317, 0x4EAC], [0x5317, 0x4EAC]),
     ([0x4E2D, 0x56FD, 0x4E0A, 0x6D77], [0x4E0A, 0x6D77]),
     ([0x7F8E, 0x56FD, 0x8FBE, 0x62C9, 0x65AF], [0x8FBE, 0x62C9, 0x65AF]),
     ([0x7F8E, 0x56FD, 0x8FC8, 0x963F, 0x5BC6], [0x8FC8, 0x963F, 0x5BC6]),
     ([0x7F8E, 0x56FD, 0x5723, 0x4F55, 0x585E], [0x5723, 0x4F55, 0x585E]),
     ([0x65B0, 0x52A0, 0x5761, 0x5171, 0x548C, 0x56FD], [0x65B0, 0x52A0, 0x5761]),
     ([0x8D8A, 0x5357, 0x6CB3, 0x5185], [0x6CB3, 0x5185]),
     ([0x6CF0, 0x56FD, 0x66FC, 0x8C37], [0x66FC, 0x8C37]),
     ([0x83F2, 0x5F8B, 0x5BBE, 0x9A6C, 0x5C3C, 0x62C9], [0x9A6C, 0x5C3C, 0x62C9]),
     ([0x5370, 0x5C3C, 0x96C5, 0x52A0, 0x8FBE], [0x96C5, 0x52A0, 0x8FBE]),
     ([0x9A6C, 0x6765, 0x67D4, 0x4F5B], [0x67D4, 0x4F5B])]"

definition apply_mapping :: "ustr \<Rightarrow> (ustr \<times> ustr) \<Rightarrow> ustr" where
  "apply_mapping location m =
     (if py_in (fst m) location then py_replace (fst m) (snd m) location else location)"

definition normalize_location :: "ustr option \<Rightarrow> ustr option" where
  "normalize_location location =
     (case location of
        None \<Rightarrow> None
      | Some l \<Rightarrow>
          if l = [] then Some l
          else Some (foldl apply_mapping (strip l) location_normalization_map))"

text \<open>
  A text is settled when none of the long names of the table occurs in it (an absent
  text is settled).
\<close>

definition settled :: "ustr option \<Rightarrow> bool" where
  "settled location =
     (case location of
        None \<Rightarrow> True
      | Some l \<Rightarrow> list_all (\<lambda>m. \<not> py_in (fst m) l) location_normalization_map)"

text \<open>A text is trimmed when it neither starts nor ends with white space.\<close>

definition trimmed :: "ustr \<Rightarrow> bool" where
  "trimmed s \<longleftrightarrow> s = [] \<or> (\<not> is_space (hd s) \<and> \<not> is_space (last s))"

text \<open>\<open>Route.get_route_signature\<close>: the three normalised names joined by a vertical bar.\<close>

definition get_route_signature :: "route \<Rightarrow> ustr" where
  "get_route_signature r =
     py_str (normalize_location (origin r)) @ [0x7C] @
     py_str (normalize_location (destination r)) @ [0x7C] @
     py_str (if truthy (via r) then normalize_location (via r) else None)"

section \<open>Regular expressions\<close>

text \<open>
  The fragment of Python's \<open>re\<close> that the program's patterns use, with the matching
  order of a backtracking engine: a literal character, a character class, a greedy
  bounded repetition of a class (\<open>[...]{lo,hi}\<close>, \<open>+\<close>, \<open>*\<close>), sequence, ordered
  alternative, the empty pattern, a numbered capturing group and the anchor \<open>^\<close>.
  An optional part \<open>(?:r)?\<close> is the alternative of \<open>r\<close> and the empty pattern,
  \<open>r\<close> first.
\<close>

datatype rx =
    Chr uchar
  | Cls "uchar \<Rightarrow> bool"
  | Rep "uchar \<Rightarrow> bool" nat "nat option"
  | Seq rx rx
  | Alt rx rx
  | Eps
  | Grp nat rx
  | Bol

type_synonym captures = "nat \<Rightarrow> ustr option"

text \<open>
  A greedy repetition first takes as many characters as it can and gives them back one
  by one: \<open>try_down lo d f\<close> tries the counts \<open>lo + d\<close>, \<dots>, \<open>lo\<close> in this order and
  stops at the first that lets the rest of the pattern match.
\<close>

fun try_down :: "nat \<Rightarrow> nat \<Rightarrow> (nat \<Rightarrow> 'r option) \<Rightarrow> 'r option" where
  "try_down lo 0 f = f lo"
| "try_down lo (Suc d) f =
     (case f (lo + Suc d) of
        Some r \<Rightarrow> Some r
      | None \<Rightarrow> try_down lo d f)"

text \<open>
  \<open>rmatch r pos s caps k\<close> matches \<open>r\<close> at position \<open>pos\<close>, where \<open>s\<close> is the text from
  there on and \<open>caps\<close> the groups captured so far, and hands the position, the rest and
  the groups to the continuation \<open>k\<close>, which matches what follows \<open>r\<close> in the pattern.
  \<open>None\<close> is failure, on which the caller tries its next choice.
\<close>

fun rmatch :: "rx \<Rightarrow> nat \<Rightarrow> ustr \<Rightarrow> captures \<Rightarrow> (nat \<Rightarrow> ustr \<Rightarrow> captures \<Rightarrow> 'r option) \<Rightarrow> 'r option"
  where
  "rmatch (Chr c) pos s caps k =
     (case s of [] \<Rightarrow> None | x # xs \<Rightarrow> if x = c then k (Suc pos) xs caps else None)"
| "rmatch (Cls P) pos s caps k =
     (case s of [] \<Rightarrow> None | x # xs \<Rightarrow> if P x then k (Suc pos) xs caps else None)"
| "rmatch (Rep P lo hi) pos s caps k =
     (let n = length (takeWhile P s);
          m = (case hi of None \<Rightarrow> n | Some h \<Rightarrow> min n h)
      in if m < lo then None
         else try_down lo (m - lo) (\<lambda>i. k (pos + i) (drop i s) caps))"
| "rmatch (Seq a b) pos s caps k =
     rmatch a pos s caps (\<lambda>pos' s' caps'. rmatch b pos' s' caps' k)"
| "rmatch (Alt a b) pos s caps k =
     (case rmatch a pos s caps k of
        Some r \<Rightarrow> Some r
      | None \<Rightarrow> rmatch b pos s caps k)"
| "rmatch Eps pos s caps k = k pos s caps"
| "rmatch (Grp i a) pos s caps k =
     rmatch a pos s caps (\<lambda>pos' s' caps'. k pos' s' (caps'(i \<mapsto> take (pos' - pos) s)))"
| "rmatch Bol pos s caps k = (if pos = 0 then k pos s caps else None)"

text \<open>
  A match object: where the match starts and ends, and its groups.  \<open>pattern.match\<close>
  tries position 0 only; \<open>pattern.search\<close> tries every position from the left.
\<close>

record match_object =
  m_start :: nat
  m_end :: nat
  m_group :: captures

definition match_at :: "rx \<Rightarrow> nat \<Rightarrow> ustr \<Rightarrow> match_object option" where
  "match_at r pos s =
     rmatch r pos s Map.empty
       (\<lambda>pos' s' caps'. Some \<lparr> m_start = pos, m_end = pos', m_group = caps' \<rparr>)"

definition re_match :: "rx \<Rightarrow> ustr \<Rightarrow> match_object option" where
  "re_match r s = match_at r 0 s"

fun search_from :: "rx \<Rightarrow> nat \<Rightarrow> ustr \<Rightarrow> match_object option" where
  "search_from r pos [] = match_at r pos []"
| "search_from r pos (x # xs) =
     (case match_at r pos (x # xs) of
        Some m \<Rightarrow> Some m
      | None \<Rightarrow> search_from r (Suc pos) xs)"

definition re_search :: "rx \<Rightarrow> ustr \<Rightarrow> match_object option" where
  "re_search r s = search_from r 0 s"

text \<open>
  \<open>re.sub(r, '', s)\<close> for a pattern that matches no empty text: every match, found from
  the left without overlap, is removed.  \<open>skip\<close> counts the characters of the current
  match that are still to be dropped.
\<close>

fun remove_matches :: "rx \<Rightarrow> nat \<Rightarrow> nat \<Rightarrow> ustr \<Rightarrow> ustr" where
  "remove_matches r skip pos [] = []"
| "remove_matches r skip pos (x # xs) =
     (if 0 < skip then remove_matches r (skip - 1) (Suc pos) xs
      else (case match_at r pos (x # xs) of
              None \<Rightarrow> x # remove_matches r 0 (Suc pos) xs
            | Some m \<Rightarrow>
                if m_end m = pos then x # remove_matches r 0 (Suc pos) xs
                else remove_matches r (m_end m - pos - 1) (Suc pos) xs))"

definition re_remove :: "rx \<Rightarrow> ustr \<Rightarrow> ustr" where
  "re_remove r s = remove_matches r 0 0 s"

text \<open>Shorthands: a sequence and an alternative of several patterns, an optional pattern.\<close>

fun seqs :: "rx list \<Rightarrow> rx" where
  "seqs [] = Eps"
| "seqs [r] = r"
| "seqs (r # rs) = Seq r (seqs rs)"

fun alts :: "rx list \<Rightarrow> rx" where
  "alts [] = Eps"
| "alts [r] = r"
| "alts (r # rs) = Alt r (alts rs)"

definition opt :: "rx \<Rightarrow> rx" where
  "opt r = Alt r Eps"

text \<open>A literal word, and a character out of a set.\<close>

definition word :: "ustr \<Rightarrow> rx" where
  "word w = seqs (map Chr w)"

definition one_of :: "uchar list \<Rightarrow> uchar \<Rightarrow> bool" where
  "one_of cs c \<longleftrightarrow> c \<in> set cs"

subsection \<open>Character classes\<close>

text \<open>The class of U+4E00 to U+9FA5, \<open>a-z\<close> and \<open>A-Z\<close>: a Chinese character or an ASCII letter.\<close>

definition han_or_letter :: "uchar \<Rightarrow> bool" where
  "han_or_letter c \<longleftrightarrow>
     (0x4E00 \<le> c \<and> c \<le> 0x9FA5) \<or> (0x61 \<le> c \<and> c \<le> 0x7A) \<or> (0x41 \<le> c \<and> c \<le> 0x5A)"

text \<open>
  \<open>\d\<close> on text: a decimal digit of any script (Unicode category Nd, here as of Unicode
  14).  The digits come in blocks of ten, listed by their zero, and the mathematical
  digits U+1D7CE to U+1D7FF in five runs of ten.
\<close>

definition digit_blocks :: "uchar list" where
  "digit_blocks =
    [0x30, 0x660, 0x6F0, 0x7C0, 0x966, 0x9E6, 0xA66, 0xAE6, 0xB66, 0xBE6, 0xC66, 0xCE6, 0xD66,
     0xDE6, 0xE50, 0xED0, 0xF20, 0x1040, 0x1090, 0x17E0, 0x1810, 0x1946, 0x19D0, 0x1A80, 0x1A90,
     0x1B50, 0x1BB0, 0x1C40, 0x1C50, 0xA620, 0xA8D0, 0xA900, 0xA9D0, 0xA9F0, 0xAA50, 0xABF0,
     0xFF10, 0x104A0, 0x10D30, 0x11066, 0x110F0, 0x11136, 0x111D0, 0x112F0, 0x11450, 0x114D0,
     0x11650, 0x116C0, 0x11730, 0x118E0, 0x11950, 0x11C50, 0x11D50, 0x11DA0, 0x16A60, 0x16AC0,
     0x16B50, 0x1E140, 0x1E2F0, 0x1E950, 0x1FBF0]"

definition is_digit :: "uchar \<Rightarrow> bool" where
  "is_digit c \<longleftrightarrow>
     list_ex (\<lambda>zero. zero \<le> c \<and> c \<le> zero + 9) digit_blocks \<or> (0x1D7CE \<le> c \<and> c \<le> 0x1D7FF)"

definition digit_value :: "uchar \<Rightarrow> int" where
  "digit_value c =
     (if 0x1D7CE \<le> c \<and> c \<le> 0x1D7FF then (c - 0x1D7CE) mod 10
      else (case find (\<lambda>zero. zero \<le> c \<and> c \<le> zero + 9) digit_blocks of
              Some zero \<Rightarrow> c - zero
            | None \<Rightarrow> 0))"

text \<open>
  Under \<open>re.IGNORECASE\<close> a letter of the pattern also matches its other case; \<open>k\<close>
  matches the Kelvin sign U+212A and \<open>s\<close> the long s U+017F as well.  The patterns with
  this flag contain the letters of \<open>kgs\<close>, \<open>cbm\<close>, \<open>rmb\<close> and \<open>usd\<close> only.
\<close>

definition ignore_case :: "uchar \<Rightarrow> rx" where
  "ignore_case c =
     (let l = (if 0x41 \<le> c \<and> c \<le> 0x5A then c + 0x20 else c) in
      if l = 0x6B then Cls (one_of [0x6B, 0x4B, 0x212A])
      else if l = 0x73 then Cls (one_of [0x73, 0x53, 0x17F])
      else if 0x61 \<le> l \<and> l \<le> 0x7A then Cls (one_of [l, l - 0x20])
      else Chr c)"

definition word_ignore_case :: "ustr \<Rightarrow> rx" where
  "word_ignore_case w = seqs (map ignore_case w)"

subsection \<open>Numbers\<close>

text \<open>
  A number found in the text is kept as the decimal text that matched
  \<open>\d+(?:\.\d+)?\<close>; the program converts it with \<open>float\<close>.  Only the truth value of
  the float is ever asked for: it is false exactly when the float is zero, that is, when
  the decimal is at most \<open>2 ^ -1075\<close>, half of the smallest positive double.
\<close>

definition decimal_value :: "ustr \<Rightarrow> int" where
  "decimal_value ds = foldl (\<lambda>a c. 10 * a + digit_value c) 0 ds"

definition float_is_zero :: "ustr \<Rightarrow> bool" where
  "float_is_zero t =
     (let whole = takeWhile (\<lambda>c. c \<noteq> 0x2E) t;
          fraction = drop (length whole + 1) t
      in if decimal_value whole \<noteq> 0 then False
         else if decimal_value fraction = 0 then True
         else decimal_value fraction * 2 ^ 1075 \<le> 10 ^ length fraction)"

definition number :: rx where
  "number = Seq (Rep is_digit 1 None) (opt (Seq (Chr 0x2E) (Rep is_digit 1 None)))"

definition spaces :: rx where
  "spaces = Rep is_space 0 None"

section \<open>The route extractor (\<open>route_extractor.py\<close>)\<close>

text \<open>
  The separators of the manual split, in the order tried: arrow, \<open>->\<close>, \<open>--\<close>, em dash,
  full-width hyphen, hyphen, tilde and the two Chinese words for ``to''.
\<close>

definition route_separators :: "ustr list" where
  "route_separators =
     [[0x2192], [0x2D, 0x3E], [0x2D, 0x2D], [0x2014], [0xFF0D], [0x2D], [0x7E], [0x81F3], [0x5230]]"

text \<open>
  \<open>route_pattern\<close>: a place of 2 to 20 characters, a separator, a place, and optionally a
  second separator and a third place; groups 1, 3 and 5 are the places.  The separator
  alternatives are arrow, \<open>->\<close>, \<open>--?\<close>, em dash, tilde and the two words for ``to''
  (the full-width hyphen is not among them).
\<close>

definition separator :: rx where
  "separator =
     alts [Chr 0x2192, word [0x2D, 0x3E], Seq (Chr 0x2D) (opt (Chr 0x2D)), Chr 0x2014, Chr 0x7E,
           Chr 0x81F3, Chr 0x5230]"

definition route_pattern :: rx where
  "route_pattern =
     seqs [Grp 1 (Rep han_or_letter 2 (Some 20)), spaces, Grp 2 separator, spaces,
           Grp 3 (Rep han_or_letter 2 (Some 20)),
           opt (seqs [spaces, Grp 4 separator, spaces, Grp 5 (Rep han_or_letter 2 (Some 20))])]"

text \<open>
  The patterns for weight, volume and value (with \<open>re.IGNORECASE\<close>): a number in group
  1, white space, a unit.
\<close>

definition weight_pattern :: rx where
  "weight_pattern =
     seqs [Grp 1 number, spaces,
           alts [Seq (word_ignore_case [0x6B, 0x67]) (opt (ignore_case 0x73)),
                 Seq (word_ignore_case [0x4B, 0x47]) (opt (ignore_case 0x53)),
                 word [0x5343, 0x514B], word [0x516C, 0x65A4]]]"

definition volume_pattern :: rx where
  "volume_pattern =
     seqs [Grp 1 number, spaces,
           alts [word_ignore_case [0x63, 0x62, 0x6D], word_ignore_case [0x43, 0x42, 0x4D],
                 word [0x7ACB, 0x65B9], Chr 0x65B9]]"

definition value_pattern :: rx where
  "value_pattern =
     seqs [Grp 1 number, spaces,
           alts [Chr 0x5143, word_ignore_case [0x72, 0x6D, 0x62], word_ignore_case [0x52, 0x4D, 0x42],
                 Chr 0xA5, word_ignore_case [0x75, 0x73, 0x64], word_ignore_case [0x55, 0x53, 0x44],
                 Chr 0x24]]"

text \<open>The pattern removed from the trade remark: a number with one of six units.\<close>

definition remark_number_pattern :: rx where
  "remark_number_pattern =
     seqs [number, spaces,
           alts [word [0x6B, 0x67], word [0x4B, 0x47], word [0x63, 0x62, 0x6D],
                 word [0x43, 0x42, 0x4D], Chr 0x5143, Chr 0xA5]]"

text \<open>\<open>_extract_weight\<close>, \<open>_extract_volume\<close>, \<open>_extract_value\<close>: group 1 of the first match.\<close>

definition first_number :: "rx \<Rightarrow> ustr \<Rightarrow> ustr option" where
  "first_number pattern text =
     (case re_search pattern text of None \<Rightarrow> None | Some m \<Rightarrow> m_group m 1)"

definition extract_weight :: "ustr \<Rightarrow> ustr option" where
  "extract_weight text = first_number weight_pattern text"

definition extract_volume :: "ustr \<Rightarrow> ustr option" where
  "extract_volume text = first_number volume_pattern text"

definition extract_value :: "ustr \<Rightarrow> ustr option" where
  "extract_value text = first_number value_pattern text"

text \<open>What \<open>_extract_route_parts\<close> and \<open>_manual_split_route\<close> return (or \<open>None\<close>).\<close>

record route_parts =
  rp_origin :: ustr
  rp_destination :: ustr
  rp_via :: "ustr option"
  rp_trade_remark :: "ustr option"

text \<open>
  \<open>_manual_split_route\<close>: for the first separator that occurs in the text and gives at
  least two valid places, the first valid place is the origin, the second the
  destination and the third, if any, the via.
\<close>

definition split_on :: "ustr \<Rightarrow> ustr \<Rightarrow> route_parts option" where
  "split_on sep text =
     (let parts = map strip (py_split sep text) in
      if 2 \<le> length parts then
        (let cleaned_parts = map deep_clean_location (filter (\<lambda>p. p \<noteq> []) parts);
             valid_parts = filter (\<lambda>p. p \<noteq> [] \<and> is_valid_location p) cleaned_parts
         in case valid_parts of
              p0 # p1 # rest \<Rightarrow>
                Some \<lparr> rp_origin = p0, rp_destination = p1,
                       rp_via = (case rest of [] \<Rightarrow> None | p2 # _ \<Rightarrow> Some p2),
                       rp_trade_remark = None \<rparr>
            | _ \<Rightarrow> None)
      else None)"

fun manual_split_with :: "ustr list \<Rightarrow> ustr \<Rightarrow> route_parts option" where
  "manual_split_with [] text = None"
| "manual_split_with (sep # seps) text =
     (if py_in sep text then
        (case split_on sep text of
           Some parts \<Rightarrow> Some parts
         | None \<Rightarrow> manual_split_with seps text)
      else manual_split_with seps text)"

definition manual_split_route :: "ustr \<Rightarrow> route_parts option" where
  "manual_split_route text = manual_split_with route_separators text"

text \<open>
  The trade remark: what follows the match, trimmed, with the numbers-with-unit removed,
  trimmed again and cut to 100 characters; \<open>None\<close> when nothing is left.
\<close>

definition trade_remark_after :: "nat \<Rightarrow> ustr \<Rightarrow> ustr option" where
  "trade_remark_after match_end text =
     (if match_end < length text then
        (let remaining = strip (drop match_end text) in
         if remaining \<noteq> [] then
           (let remaining' = strip (re_remove remark_number_pattern remaining) in
            if remaining' \<noteq> [] then Some (take 100 remaining') else None)
         else None)
      else None)"

text \<open>
  The pattern's reading of a match: with a third place, the second place is the via and
  the third the destination; otherwise the second place is the destination.  The places
  are cleaned, then checked against the whitelist; a via that cleans to the empty text is
  kept as it is.  Origin and destination are both needed.
\<close>

definition parts_of_match :: "match_object \<Rightarrow> ustr \<Rightarrow> route_parts option" where
  "parts_of_match m text =
     (case (m_group m 1, m_group m 3) of
        (Some origin_raw, Some second_loc) \<Rightarrow>
          (let third_loc = (case m_group m 5 of None \<Rightarrow> None
                            | Some t \<Rightarrow> if t \<noteq> [] then Some t else None);
               via_raw = (case third_loc of None \<Rightarrow> None | Some _ \<Rightarrow> Some second_loc);
               destination_raw = (case third_loc of None \<Rightarrow> second_loc | Some t \<Rightarrow> t);
               origin_name = deep_clean_location origin_raw;
               destination_name = deep_clean_location destination_raw;
               via0 = (case via_raw of
                         None \<Rightarrow> None
                       | Some v \<Rightarrow> if v \<noteq> [] then Some (deep_clean_location v) else None);
               via1 = (case via0 of
                         None \<Rightarrow> None
                       | Some v \<Rightarrow> if v \<noteq> [] \<and> \<not> is_valid_location v then None else Some v)
           in if is_valid_location origin_name \<and> origin_name \<noteq> [] \<and>
                 is_valid_location destination_name \<and> destination_name \<noteq> []
              then Some \<lparr> rp_origin = origin_name, rp_destination = destination_name,
                          rp_via = via1, rp_trade_remark = trade_remark_after (m_end m) text \<rparr>
              else None)
      | _ \<Rightarrow> None)"

text \<open>\<open>_extract_route_parts\<close>: the pattern first, the manual split when it gives nothing.\<close>

definition extract_route_parts :: "ustr \<Rightarrow> route_parts option" where
  "extract_route_parts text =
     (case re_search route_pattern text of
        None \<Rightarrow> manual_split_route text
      | Some m \<Rightarrow>
          (case parts_of_match m text of
             Some parts \<Rightarrow> Some parts
           | None \<Rightarrow> manual_split_route text))"

text \<open>The dictionary \<open>extract_route\<close> returns.\<close>

record route_result =
  res_origin :: "ustr option"
  res_destination :: "ustr option"
  res_via :: "ustr option"
  res_trade_remark :: "ustr option"
  res_weight :: "ustr option"
  res_volume :: "ustr option"
  res_value :: "ustr option"
  res_raw :: ustr

text \<open>
  \<open>extract_route\<close>: the places from the text; when no origin was found and a fallback
  (the sheet name) is given, the cleaned fallback if it is a valid place; then the
  numbers.
\<close>

definition extract_route :: "ustr \<Rightarrow> ustr option \<Rightarrow> route_result" where
  "extract_route text fallback_start =
     (if text = [] then
        \<lparr> res_origin = None, res_destination = None, res_via = None, res_trade_remark = None,
          res_weight = None, res_volume = None, res_value = None, res_raw = text \<rparr>
      else
        (let route_parts = extract_route_parts text;
             origin0 = map_option rp_origin route_parts;
             origin1 =
               (if \<not> truthy origin0 \<and> truthy fallback_start then
                  (case fallback_start of
                     None \<Rightarrow> origin0
                   | Some fallback \<Rightarrow>
                       (let cleaned_start = deep_clean_location fallback
                        in if is_valid_location cleaned_start then Some cleaned_start else origin0))
                else origin0)
         in \<lparr> res_origin = origin1,
              res_destination = map_option rp_destination route_parts,
              res_via = (case route_parts of None \<Rightarrow> None | Some p \<Rightarrow> rp_via p),
              res_trade_remark = (case route_parts of None \<Rightarrow> None | Some p \<Rightarrow> rp_trade_remark p),
              res_weight = extract_weight text,
              res_volume = extract_volume text,
              res_value = extract_value text,
              res_raw = text \<rparr>))"

section \<open>Agents and quote blocks\<close>

text \<open>
  The dataclass \<open>Agent\<close>: name, transport mode, trade type, remark, exclusions, lead
  time, the compensation flag (the text \<open>0\<close> by default) and the compensation detail.
  A \<open>QuoteBlock\<close> pairs a route with an agent; the parser always builds it with no fee
  items, an empty fee total and an empty summary, which are left out here.
\<close>

record agent =
  agent_name :: "ustr option"
  transport_mode :: "ustr option"
  trade_type :: "ustr option"
  agent_remark :: "ustr option"
  excludes :: "ustr option"
  lead_time :: "ustr option"
  compensated :: ustr
  compensation_detail :: "ustr option"

definition empty_agent :: agent where
  "empty_agent = \<lparr> agent_name = None, transport_mode = None, trade_type = None,
     agent_remark = None, excludes = None, lead_time = None, compensated = [0x30],
     compensation_detail = None \<rparr>"

record quote_block =
  qb_route :: route
  qb_agent :: agent

section \<open>The table parser (\<open>horizontal_table_parser.py\<close>)\<close>

text \<open>
  A sheet is a list of rows and a row a list of cells; the cells are text, as the
  Excel reader delivers them.  A cell is false when it is the empty text.
\<close>

type_synonym row = "ustr list"
type_synonym sheet = "row list"

text \<open>
  \<open>str.lower\<close>, on the ASCII letters.  (Python lowers the cased letters of every
  script; the program only compares lowered cells with \<open>nan\<close>, \<open>none\<close>, \<open>/\<close>, \<open>-\<close>
  and the empty text and searches them for three Chinese words, and no letter outside
  ASCII lowers to a character of these.)
\<close>

definition py_lower :: "ustr \<Rightarrow> ustr" where
  "py_lower s = map (\<lambda>c. if 0x41 \<le> c \<and> c \<le> 0x5A then c + 0x20 else c) s"

text \<open>
  The parser's own two patterns.  \<open>route_pattern\<close> of the parser: place, one or more
  separator characters (hyphen, em dash, arrow, \<open>>\<close> and the two words for ``to''),
  place, and optionally separators and a third place; the places are groups 1, 2, 3.
  \<open>table_header_pattern\<close>: at the start of the text, optionally the two-character word
  ``goods handed over at'', then a place of 2 to 15 characters, separator characters
  (hyphen, em dash, arrow, \<open>>\<close>) and a second place.
\<close>

definition table_route_pattern :: rx where
  "table_route_pattern =
     seqs [Grp 1 (Rep han_or_letter 2 (Some 20)), spaces,
           Rep (one_of [0x2D, 0x2014, 0x2192, 0x3E, 0x81F3, 0x5230]) 1 None, spaces,
           Grp 2 (Rep han_or_letter 2 (Some 20)),
           opt (seqs [spaces, Rep (one_of [0x2D, 0x2014, 0x2192, 0x3E, 0x81F3, 0x5230]) 1 None,
                      spaces, Grp 3 (Rep han_or_letter 2 (Some 20))])]"

definition table_header_pattern :: rx where
  "table_header_pattern =
     seqs [Bol, opt (word [0x8D27, 0x4EA4]), Grp 1 (Rep han_or_letter 2 (Some 15)), spaces,
           Rep (one_of [0x2D, 0x2014, 0x2192, 0x3E]) 1 None, spaces,
           Grp 2 (Rep han_or_letter 2 (Some 15))]"

text \<open>The agent vocabulary: ``agent'', ``forwarder'', ``company''.\<close>

definition agent_keywords :: "ustr list" where
  "agent_keywords = [[0x4EE3, 0x7406], [0x8D27, 0x4EE3], [0x516C, 0x53F8]]"

definition has_agent_keyword :: "ustr \<Rightarrow> bool" where
  "has_agent_keyword cell = list_ex (\<lambda>kw. py_in kw cell) agent_keywords"

text \<open>The lone tokens \<open>/\<close>, \<open>-\<close> and the empty text.\<close>

definition is_separator_token :: "ustr \<Rightarrow> bool" where
  "is_separator_token cell \<longleftrightarrow> cell \<in> set [[0x2F], [0x2D], []]"

subsection \<open>Table boundaries\<close>

definition has_colon :: "ustr \<Rightarrow> bool" where
  "has_colon cell \<longleftrightarrow> py_in [0x3A] cell \<or> py_in [0xFF1A] cell"

text \<open>Both places of a match (groups \<open>i\<close> and \<open>j\<close>) are on the whitelist.\<close>

definition both_valid :: "match_object option \<Rightarrow> nat \<Rightarrow> nat \<Rightarrow> bool" where
  "both_valid mo i j =
     (case mo of
        None \<Rightarrow> False
      | Some m \<Rightarrow>
          (case (m_group m i, m_group m j) of
             (Some place1, Some place2) \<Rightarrow>
               is_valid_location place1 \<and> is_valid_location place2
           | _ \<Rightarrow> False))"

text \<open>
  The row after \<open>row_idx\<close> looks like an agent row: it exists, has a first cell, and the
  trimmed, lowered cell contains an agent word or is one of the lone tokens.
\<close>

definition next_row_is_agent :: "sheet \<Rightarrow> nat \<Rightarrow> bool" where
  "next_row_is_agent sheet_data row_idx =
     (if row_idx + 1 < length sheet_data then
        (case sheet_data ! (row_idx + 1) of
           [] \<Rightarrow> False
         | cell # _ \<Rightarrow>
             if cell \<noteq> [] then
               (let next_cell = py_lower (strip cell)
                in has_agent_keyword next_cell \<or> is_separator_token next_cell)
             else False)
      else False)"

text \<open>
  The three rules of \<open>_find_table_boundaries\<close>, an \<open>if\<close>/\<open>elif\<close> chain: rule 1 for a
  cell that starts with ``goods handed over at'' and has a colon; rule 2 for any other
  cell with a colon; rule 3 for a cell that does not end in a colon.
\<close>

definition rule1 :: "ustr \<Rightarrow> bool" where
  "rule1 first_cell = both_valid (re_search table_header_pattern first_cell) 1 2"

definition rule2 :: "sheet \<Rightarrow> nat \<Rightarrow> ustr \<Rightarrow> bool" where
  "rule2 sheet_data row_idx first_cell =
     (let route_part = strip (rstrip_chars [0xFF1A, 0x3A] first_cell) in
      if length route_part < 30 then
        both_valid (re_search table_route_pattern route_part) 1 2 \<and>
        next_row_is_agent sheet_data row_idx
      else False)"

definition rule3 :: "ustr \<Rightarrow> bool" where
  "rule3 first_cell = both_valid (re_match table_header_pattern first_cell) 1 2"

definition is_valid_title :: "sheet \<Rightarrow> nat \<Rightarrow> ustr \<Rightarrow> bool" where
  "is_valid_title sheet_data row_idx first_cell =
     (if starts_with [0x8D27, 0x4EA4] first_cell \<and> has_colon first_cell then rule1 first_cell
      else if has_colon first_cell then rule2 sheet_data row_idx first_cell
      else if \<not> ends_with [0xFF1A] first_cell \<and> \<not> ends_with [0x3A] first_cell then rule3 first_cell
      else False)"

text \<open>
  Whether row \<open>row_idx\<close> is a title row: it has a non-empty first cell of at most 80
  characters (trimmed) that one of the rules accepts.
\<close>

definition title_of_row :: "sheet \<Rightarrow> nat \<Rightarrow> ustr option" where
  "title_of_row sheet_data row_idx =
     (case sheet_data ! row_idx of
        [] \<Rightarrow> None
      | cell # _ \<Rightarrow>
          if cell = [] then None
          else (let first_cell = strip cell in
                if 80 < length first_cell then None
                else if is_valid_title sheet_data row_idx first_cell then Some first_cell
                else None))"

text \<open>
  The scan.  The state is the list of closed spans and the open span, if any (its first
  row and title).  A title row closes the open span at the row before and opens a new
  one.
\<close>

type_synonym span = "nat \<times> nat \<times> ustr"

definition scan_row :: "sheet \<Rightarrow> span list \<times> (nat \<times> ustr) option \<Rightarrow> nat \<Rightarrow> span list \<times> (nat \<times> ustr) option"
  where
  "scan_row sheet_data state row_idx =
     (case title_of_row sheet_data row_idx of
        None \<Rightarrow> state
      | Some first_cell \<Rightarrow>
          (case state of
             (boundaries, None) \<Rightarrow> (boundaries, Some (row_idx, first_cell))
           | (boundaries, Some (current_start, current_route_text)) \<Rightarrow>
               (boundaries @ [(current_start, row_idx - 1, current_route_text)],
                Some (row_idx, first_cell))))"

text \<open>
  The second strategy, when the scan found nothing: the whole sheet as one span, if the
  first row's first cell (up to a vertical bar) is non-empty, shorter than 100 characters
  and contains a match of the route pattern.
\<close>

definition first_row_span :: "sheet \<Rightarrow> span list" where
  "first_row_span sheet_data =
     (case sheet_data of
        [] \<Rightarrow> []
      | [] # _ \<Rightarrow> []
      | (cell # _) # _ \<Rightarrow>
          (let first_cell = strip cell;
               route_part = (if py_in [0x7C] first_cell then strip (first_part [0x7C] first_cell)
                             else first_cell)
           in if route_part \<noteq> [] \<and> length route_part < 100 \<and>
                 re_search table_route_pattern route_part \<noteq> None
              then [(0, length sheet_data - 1, first_cell)]
              else []))"

text \<open>The spans of the scan: the closed ones and, closed at the last row, the open one.\<close>

definition scanned_spans :: "sheet \<Rightarrow> span list" where
  "scanned_spans sheet_data =
     (case foldl (scan_row sheet_data) ([], None) [0..<length sheet_data] of
        (closed, None) \<Rightarrow> closed
      | (closed, Some (current_start, current_route_text)) \<Rightarrow>
          closed @ [(current_start, length sheet_data - 1, current_route_text)])"

text \<open>\<open>_find_table_boundaries\<close>: the scan, and the second strategy when it found nothing.\<close>

definition find_table_boundaries :: "sheet \<Rightarrow> span list" where
  "find_table_boundaries sheet_data =
     (let boundaries = scanned_spans sheet_data
      in if boundaries = [] \<and> sheet_data \<noteq> [] then first_row_span sheet_data else boundaries)"

subsection \<open>The route of a span\<close>

text \<open>
  The truth value of an extracted number, a float: false when absent or zero.
\<close>

definition truthy_number :: "ustr option \<Rightarrow> bool" where
  "truthy_number x = (case x of None \<Rightarrow> False | Some t \<Rightarrow> \<not> float_is_zero t)"

text \<open>
  \<open>_extract_route_from_text\<close>.  The parser always has a \<open>RouteExtractor\<close> (the module is
  part of the program), so the extractor's branch is the one taken; the older inline
  logic after it is never reached.
\<close>

definition extract_route_from_text :: "ustr \<Rightarrow> ustr option \<Rightarrow> route" where
  "extract_route_from_text text name =
     (let route0 = empty_route\<lparr> sheet_name := name,
                     raw := (if text \<noteq> [] then Some (take 100 text) else None) \<rparr>
      in if text = [] then route0
         else
           (let route_part0 = (if py_in [0x7C] text then strip (first_part [0x7C] text) else text);
                route_part = strip (rstrip_chars [0xFF1A, 0x3A] route_part0);
                route_info = extract_route route_part name
            in route0\<lparr> origin := res_origin route_info,
                 destination :=
                   (case res_destination route_info of
                      None \<Rightarrow> None
                    | Some d \<Rightarrow> if d \<noteq> [] then Some (clean_location_suffix d) else Some d),
                 via := res_via route_info,
                 trade_remark := res_trade_remark route_info,
                 actual_weight := res_weight route_info,
                 billing_weight :=
                   (if truthy_number (res_weight route_info) then res_weight route_info else None),
                 total_volume := res_volume route_info,
                 goods_value := res_value route_info \<rparr>))"

subsection \<open>The structure of a table\<close>

text \<open>\<open>_get_cell\<close>: the trimmed cell, or \<open>None\<close> out of range and for \<open>nan\<close>, \<open>none\<close>, empty.\<close>

definition get_cell :: "sheet \<Rightarrow> nat \<Rightarrow> nat \<Rightarrow> ustr option" where
  "get_cell table_data row_idx col_idx =
     (if length table_data \<le> row_idx then None
      else (let row = table_data ! row_idx in
            if length row \<le> col_idx then None
            else (let cell = row ! col_idx in
                  if py_lower (strip cell) \<in> set [[0x6E, 0x61, 0x6E], [0x6E, 0x6F, 0x6E, 0x65], []]
                  then None
                  else Some (strip cell))))"

record table_structure =
  num_cols :: nat
  agent_row :: "nat option"

text \<open>
  Whether row \<open>row_idx\<close> is the agent row: its lowered first cell has an agent word
  (method 1), or is a lone token while one of the cells in columns 1 to 4 has more than
  one character (method 2).
\<close>

definition is_agent_row :: "sheet \<Rightarrow> nat \<Rightarrow> bool" where
  "is_agent_row table_data row_idx =
     (case table_data ! row_idx of
        [] \<Rightarrow> False
      | cell # rest \<Rightarrow>
          (let first_cell = (if cell \<noteq> [] then py_lower (strip cell) else []) in
           has_agent_keyword first_cell \<or>
           (is_separator_token first_cell \<and> 1 < length (cell # rest) \<and>
            list_ex (\<lambda>col_idx. case get_cell table_data row_idx col_idx of
                                 None \<Rightarrow> False
                               | Some c \<Rightarrow> 1 < length c)
              [1..<min (length (cell # rest)) 5])))"

datatype error = ValueError

text \<open>
  \<open>_identify_structure\<close>: \<open>None\<close> for no rows; otherwise the greatest row length and the
  first agent row.  Python's \<open>max\<close> raises \<open>ValueError\<close> when every row is empty.
\<close>

definition identify_structure :: "sheet \<Rightarrow> error + table_structure option" where
  "identify_structure table_data =
     (if table_data = [] then Inr None
      else (case filter (\<lambda>row. row \<noteq> []) table_data of
              [] \<Rightarrow> Inl ValueError
            | row # rows \<Rightarrow>
                Inr (Some \<lparr> num_cols = foldl max (length row) (map length rows),
                            agent_row = find (is_agent_row table_data) [0..<length table_data] \<rparr>)))"

subsection \<open>The quotes of a table\<close>

text \<open>A route is complete when it has both an origin and a destination.\<close>

definition complete :: "route \<Rightarrow> bool" where
  "complete r \<longleftrightarrow> truthy (origin r) \<and> truthy (destination r)"

text \<open>
  The first step of \<open>_parse_single_table\<close>: the route of the header; when it is not
  complete and there is a sheet name, the route of the sheet name if that one is complete;
  \<open>None\<close> (the table is skipped) when the route kept has neither origin nor destination.
\<close>

definition base_route_of :: "ustr \<Rightarrow> ustr option \<Rightarrow> route option" where
  "base_route_of route_text name =
     (let base_route = extract_route_from_text route_text name in
      if \<not> complete base_route \<and> truthy name then
        (case name of
           None \<Rightarrow> None
         | Some n \<Rightarrow>
             (let sheet_route = extract_route_from_text n name in
              if complete sheet_route then Some sheet_route
              else if \<not> truthy (origin base_route) \<and> \<not> truthy (destination base_route) then None
              else Some base_route))
      else if \<not> truthy (origin base_route) \<and> \<not> truthy (destination base_route) then None
      else Some base_route)"

text \<open>
  Whether the table is treated as a single quote: at most two columns, or no agent row,
  or an agent row with nothing in its columns from 1 on.
\<close>

definition is_single_column :: "sheet \<Rightarrow> table_structure \<Rightarrow> bool" where
  "is_single_column table_data s =
     (if \<not> num_cols s \<le> 2 \<and> agent_row s \<noteq> None then
        (case agent_row s of
           None \<Rightarrow> True
         | Some r \<Rightarrow>
             (let agent_row_data = (if r < length table_data then table_data ! r else []) in
              \<not> (1 < length agent_row_data \<and> list_ex (\<lambda>c. c \<noteq> []) (drop 1 agent_row_data))))
      else if agent_row s = None then True
      else num_cols s \<le> 2)"

text \<open>
  The agent of a single quote: the cell in column 1 of the agent row when that row has
  two cells and an agent word in its first, else its first cell; without a name, the
  sheet name followed by ``-single column quote'', or ``agent not given''.
\<close>

definition single_agent :: "sheet \<Rightarrow> table_structure \<Rightarrow> ustr option \<Rightarrow> agent" where
  "single_agent table_data s name =
     (let agent_cell =
            (case agent_row s of
               None \<Rightarrow> None
             | Some r \<Rightarrow>
                 (case table_data ! r of
                    [] \<Rightarrow> get_cell table_data r 0
                  | cell # rest \<Rightarrow>
                      if 2 \<le> length (cell # rest) \<and> has_agent_keyword cell
                      then get_cell table_data r 1
                      else get_cell table_data r 0));
          found = (case agent_cell of
                     None \<Rightarrow> None
                   | Some c \<Rightarrow> if c \<noteq> [] then Some (strip c) else None)
      in empty_agent\<lparr> agent_name :=
           (if truthy found then found
            else (case name of
                    None \<Rightarrow> Some [0x672A, 0x6807, 0x6CE8, 0x4EE3, 0x7406, 0x5546]
                  | Some n \<Rightarrow>
                      if n \<noteq> [] then Some (n @ [0x2D, 0x5355, 0x5217, 0x62A5, 0x4EF7])
                      else Some [0x672A, 0x6807, 0x6CE8, 0x4EE3, 0x7406, 0x5546])) \<rparr>)"

text \<open>
  \<open>_extract_column_quote\<close>: a copy of the base route (the dates are not copied) with
  the agent named in the agent row's cell of that column; no quote without a name.
\<close>

definition extract_column_quote :: "sheet \<Rightarrow> nat \<Rightarrow> table_structure \<Rightarrow> route \<Rightarrow> ustr option \<Rightarrow> quote_block option"
  where
  "extract_column_quote table_data col_idx s base_route name =
     (let route = base_route\<lparr> trade_start_date := None, trade_end_date := None,
                    sheet_name := name \<rparr>;
          agent_cell = (case agent_row s of
                          None \<Rightarrow> None
                        | Some r \<Rightarrow> get_cell table_data r col_idx);
          found = (case agent_cell of
                     None \<Rightarrow> None
                   | Some c \<Rightarrow> if c \<noteq> [] then Some (strip c) else None)
      in if truthy found
         then Some \<lparr> qb_route = route, qb_agent = empty_agent\<lparr> agent_name := found \<rparr> \<rparr>
         else None)"

text \<open>\<open>_parse_single_table\<close>.\<close>

definition parse_single_table :: "sheet \<Rightarrow> ustr \<Rightarrow> ustr option \<Rightarrow> error + quote_block list" where
  "parse_single_table table_data route_text name =
     (if table_data = [] \<or> length table_data < 2 then Inr []
      else
        (case base_route_of route_text name of
           None \<Rightarrow> Inr []
         | Some base_route \<Rightarrow>
             (case identify_structure table_data of
                Inl e \<Rightarrow> Inl e
              | Inr None \<Rightarrow> Inr []
              | Inr (Some s) \<Rightarrow>
                  if is_single_column table_data s then
                    (if complete base_route
                     then Inr [\<lparr> qb_route = base_route,
                                 qb_agent = single_agent table_data s name \<rparr>]
                     else Inr [])
                  else
                    Inr (List.map_filter
                           (\<lambda>col_idx. extract_column_quote table_data col_idx s base_route name)
                           [1..<num_cols s]))))"

subsection \<open>The quotes of a sheet\<close>

text \<open>
  The state of the loop over the spans: the quotes kept, the signatures seen, and whether
  some route came from the content rather than from the sheet name.
\<close>

record sheet_state =
  all_quotes :: "quote_block list"
  seen_routes :: "ustr list"
  has_content_route :: bool

text \<open>
  One quote of the merge within a sheet: it is kept when its signature is new, and
  dropped otherwise.
\<close>

definition merge_quote :: "ustr option \<Rightarrow> sheet_state \<Rightarrow> quote_block \<Rightarrow> sheet_state" where
  "merge_quote name st quote =
     (let route_signature = get_route_signature (qb_route quote);
          content = (has_content_route st \<or>
                     (truthy (raw (qb_route quote)) \<and> raw (qb_route quote) \<noteq> name))
      in if route_signature \<notin> set (seen_routes st)
         then \<lparr> all_quotes = all_quotes st @ [quote],
                seen_routes = seen_routes st @ [route_signature],
                has_content_route = content \<rparr>
         else st\<lparr> has_content_route := content \<rparr>)"

text \<open>\<open>sheet_data[start_row:end_row + 1]\<close>.\<close>

definition rows_of_span :: "sheet \<Rightarrow> nat \<Rightarrow> nat \<Rightarrow> sheet" where
  "rows_of_span sheet_data start_row end_row =
     take (end_row + 1 - start_row) (drop start_row sheet_data)"

fun parse_tables :: "sheet \<Rightarrow> ustr option \<Rightarrow> sheet_state \<Rightarrow> span list \<Rightarrow> error + sheet_state" where
  "parse_tables sheet_data name st [] = Inr st"
| "parse_tables sheet_data name st ((start_row, end_row, route_text) # spans) =
     (case parse_single_table (rows_of_span sheet_data start_row end_row) route_text name of
        Inl e \<Rightarrow> Inl e
      | Inr quotes \<Rightarrow> parse_tables sheet_data name (foldl (merge_quote name) st quotes) spans)"

text \<open>
  The fallback of \<open>parse_sheet\<close>: with no quote and no route from the content, the route
  of the sheet name, if complete, under an agent named after the sheet.
\<close>

definition sheet_name_quote :: "sheet_state \<Rightarrow> ustr option \<Rightarrow> quote_block list" where
  "sheet_name_quote st name =
     (if all_quotes st = [] \<and> \<not> has_content_route st \<and> truthy name then
        (case name of
           None \<Rightarrow> []
         | Some n \<Rightarrow>
             (let sheet_route = extract_route_from_text n name in
              if complete sheet_route
              then [\<lparr> qb_route = sheet_route,
                      qb_agent = empty_agent\<lparr> agent_name :=
                        Some (n @ [0x2D, 0x73, 0x68, 0x65, 0x65, 0x74, 0x540D, 0x63D0, 0x53D6]) \<rparr> \<rparr>]
              else []))
      else all_quotes st)"

text \<open>
  The trading dates.  \<open>extract_transaction_dates\<close> reads the clock to guess the year, so
  its result for the file name is a parameter here: \<open>dates\<close>.  Both dates are written
  into every quote when there is a file name, a quote, and both are non-empty.
\<close>

definition with_dates :: "ustr option \<Rightarrow> ustr option \<times> ustr option \<Rightarrow> quote_block list \<Rightarrow> quote_block list"
  where
  "with_dates filename dates quotes =
     (if truthy filename \<and> quotes \<noteq> [] \<and> truthy (fst dates) \<and> truthy (snd dates)
      then map (\<lambda>q. q\<lparr> qb_route := (qb_route q)\<lparr> trade_start_date := fst dates,
                                        trade_end_date := snd dates \<rparr> \<rparr>) quotes
      else quotes)"

text \<open>\<open>parse_sheet\<close>.\<close>

definition parse_sheet ::
  "sheet \<Rightarrow> ustr option \<Rightarrow> ustr option \<Rightarrow> ustr option \<times> ustr option \<Rightarrow> error + quote_block list" where
  "parse_sheet sheet_data name filename dates =
     (if sheet_data = [] then Inr []
      else
        (case parse_tables sheet_data name
                \<lparr> all_quotes = [], seen_routes = [], has_content_route = False \<rparr>
                (find_table_boundaries sheet_data) of
           Inl e \<Rightarrow> Inl e
         | Inr st \<Rightarrow> Inr (with_dates filename dates (sheet_name_quote st name))))"

section \<open>Merging within a sheet, stated apart from the loop\<close>

text \<open>The merge signature of a quote.\<close>

definition quote_signature :: "quote_block \<Rightarrow> ustr" where
  "quote_signature q = get_route_signature (qb_route q)"

text \<open>
  The first occurrences in a list under a key: the head stays, and of the first
  occurrences of the tail those stay whose key is not the head's.
\<close>

fun first_occurrences :: "('a \<Rightarrow> 'k) \<Rightarrow> 'a list \<Rightarrow> 'a list" where
  "first_occurrences key [] = []"
| "first_occurrences key (x # xs) = x # filter (\<lambda>y. key y \<noteq> key x) (first_occurrences key xs)"

text \<open>The quotes of all spans, table after table, before any merging.\<close>

fun span_quotes :: "sheet \<Rightarrow> ustr option \<Rightarrow> span list \<Rightarrow> error + quote_block list" where
  "span_quotes sheet_data name [] = Inr []"
| "span_quotes sheet_data name ((start_row, end_row, route_text) # spans) =
     (case parse_single_table (rows_of_span sheet_data start_row end_row) route_text name of
        Inl e \<Rightarrow> Inl e
      | Inr quotes \<Rightarrow>
          (case span_quotes sheet_data name spans of
             Inl e \<Rightarrow> Inl e
           | Inr later \<Rightarrow> Inr (quotes @ later)))"

section \<open>Example sheets\<close>

text \<open>
  The sheet of \<open>test_within_sheet_deduplication\<close> in \<open>scripts/test.py\<close>, and its name
  (the word ``test'' followed by \<open>Sheet\<close>): the header ``Shenzhen-Hong Kong 1740KGS'', an
  agent row with three agents, a row of unit prices and a row of subtotals.  The test
  expects one quote.
\<close>

definition test_sheet :: sheet where
  "test_sheet =
     [[[0x6DF1, 0x5733, 0x2D, 0x9999, 0x6E2F, 0x20, 0x31, 0x37, 0x34, 0x30, 0x4B, 0x47, 0x53]],
      [[0x4EE3, 0x7406], [0x878D, 0x8FC5], [0x94F6, 0x987A, 0x8FBE], [0x6B27, 0x6D32, 0x4E13, 0x7EBF]],
      [[0x8D39, 0x7528, 0x660E, 0x7EC6], [0x31, 0x38, 0x2F, 0x6B, 0x67], [0x32, 0x32, 0x2F, 0x6B, 0x67],
       [0x31, 0x38, 0x2F, 0x6B, 0x67]],
      [[0x5C0F, 0x8BA1], [0x33, 0x31, 0x33, 0x32, 0x30], [0x33, 0x38, 0x32, 0x38, 0x30],
       [0x33, 0x31, 0x33, 0x32, 0x30]]]"

definition test_sheet_name :: ustr where
  "test_sheet_name = [0x6D4B, 0x8BD5, 0x53, 0x68, 0x65, 0x65, 0x74]"

text \<open>
  A sheet \<open>S\<close> with two tables for the same route in two spellings, ``Shenzhen-Malaysia''
  (four characters for Malaysia) quoted by agent \<open>A1\<close> and ``Shenzhen-Malay'' (two
  characters) quoted by agent \<open>B2\<close>.
\<close>

definition two_spellings_sheet :: sheet where
  "two_spellings_sheet =
     [[[0x6DF1, 0x5733, 0x2D, 0x9A6C, 0x6765, 0x897F, 0x4E9A]],
      [[0x4EE3, 0x7406], [0x41, 0x31]],
      [[0x6DF1, 0x5733, 0x2D, 0x9A6C, 0x6765]],
      [[0x4EE3, 0x7406], [0x42, 0x32]]]"


text \<open>
  The quote expected from the test sheet for an agent: Shenzhen to Hong Kong, 1740 as
  actual and billing weight, the remark \<open>S\<close> (what is left of \<open>1740KGS\<close> once
  \<open>1740KG\<close> is removed), under the test sheet's name.
\<close>

definition test_quote :: "ustr \<Rightarrow> quote_block" where
  "test_quote name =
     \<lparr> qb_route = empty_route\<lparr> origin := Some [0x6DF1, 0x5733], destination := Some [0x9999, 0x6E2F],
                     trade_remark := Some [0x53],
                     actual_weight := Some [0x31, 0x37, 0x34, 0x30],
                     billing_weight := Some [0x31, 0x37, 0x34, 0x30],
                     raw := Some [0x6DF1, 0x5733, 0x2D, 0x9999, 0x6E2F, 0x20, 0x31, 0x37, 0x34, 0x30,
                                  0x4B, 0x47, 0x53],
                     sheet_name := Some test_sheet_name \<rparr>,
       qb_agent = empty_agent\<lparr> agent_name := Some name \<rparr> \<rparr>"

text \<open>
  The quote built for a table of the two-spellings sheet (named \<open>S\<close>): from Shenzhen to
  the destination as spelt in the header, by the given agent.
\<close>

definition spelling_quote :: "ustr \<Rightarrow> ustr \<Rightarrow> quote_block" where
  "spelling_quote dest name =
     \<lparr> qb_route = empty_route\<lparr> origin := Some [0x6DF1, 0x5733], destination := Some dest,
                     raw := Some ([0x6DF1, 0x5733, 0x2D] @ dest), sheet_name := Some [0x53] \<rparr>,
       qb_agent = empty_agent\<lparr> agent_name := Some name \<rparr> \<rparr>"


text \<open>
  The quote that \<open>_extract_column_quote\<close> builds for an agent column: a copy of the base
  route (the dates are not copied) under the sheet's name, and the agent named in the
  column.
\<close>

definition column_quote :: "route \<Rightarrow> ustr option \<Rightarrow> ustr \<Rightarrow> quote_block" where
  "column_quote base_route name a =
     \<lparr> qb_route = base_route\<lparr> trade_start_date := None, trade_end_date := None,
                    sheet_name := name \<rparr>,
       qb_agent = empty_agent\<lparr> agent_name := Some a \<rparr> \<rparr>"

text \<open>
  Two sheets with a three-place title over the same agent row: ``Shenzhen-Hong Kong-Mars''
  with a full-width colon, and ``Shenzhen-Mars-Hong Kong'' with a colon.  ``Mars'' is on
  no list of places.
\<close>

definition unknown_last_place_sheet :: sheet where
  "unknown_last_place_sheet =
     [[[0x6DF1, 0x5733, 0x2D, 0x9999, 0x6E2F, 0x2D, 0x706B, 0x661F, 0xFF1A]],
      [[0x4EE3, 0x7406], [0x41, 0x31]]]"

definition unknown_middle_place_sheet :: sheet where
  "unknown_middle_place_sheet =
     [[[0x6DF1, 0x5733, 0x2D, 0x706B, 0x661F, 0x2D, 0x9999, 0x6E2F, 0x3A]],
      [[0x4EE3, 0x7406], [0x41, 0x31]]]"

section \<open>The runner (\<open>dryrun_horizontal_parser.py\<close>)\<close>

text \<open>
  What the sheet scanner found for the whole sheet (weights, volume, value); the runner
  uses it to fill the numbers a route lacks.  \<open>None\<close> stands for no (or an empty) result.
\<close>

record goods_info =
  gi_actual_weight :: "ustr option"
  gi_billing_weight :: "ustr option"
  gi_total_volume :: "ustr option"
  gi_goods_value :: "ustr option"

text \<open>The rows of the two output lists \<open>routes\<close> and \<open>route_agents\<close>.\<close>

record route_row =
  rr_route_id :: int
  rr_origin :: "ustr option"
  rr_destination :: "ustr option"
  rr_via :: "ustr option"
  rr_start_date :: "ustr option"
  rr_end_date :: "ustr option"
  rr_actual_weight :: "ustr option"
  rr_billing_weight :: "ustr option"
  rr_total_volume :: "ustr option"
  rr_goods_value :: "ustr option"

record agent_row =
  ar_agent_route_id :: int
  ar_route_id :: int
  ar_agent :: agent

text \<open>
  The part of \<open>HorizontalParserRunner\<close> that routes and agents touch: the two output
  lists, their counters, and the map from raw key to route ID.  The goods, fee and
  summary lists are appended to by the same methods; they neither read nor write these
  five fields and are left out.
\<close>

record runner =
  routes :: "route_row list"
  route_agents :: "agent_row list"
  route_id :: int
  agent_route_id :: int
  route_key_to_id :: "ustr \<Rightarrow> int option"

definition initial_runner :: runner where
  "initial_runner = \<lparr> routes = [], route_agents = [], route_id = 1, agent_route_id = 1,
     route_key_to_id = Map.empty \<rparr>"

text \<open>A number of the route, or else the scanner's (\<open>_process_quote_block\<close>, step 1).\<close>

definition supplement :: "ustr option \<Rightarrow> ustr option \<Rightarrow> ustr option" where
  "supplement own scanned = (case own of None \<Rightarrow> scanned | Some x \<Rightarrow> Some x)"

definition route_dict :: "goods_info option \<Rightarrow> route \<Rightarrow> route" where
  "route_dict info r =
     (case info of
        None \<Rightarrow> r
      | Some g \<Rightarrow> r\<lparr> actual_weight := supplement (actual_weight r) (gi_actual_weight g),
                    billing_weight := supplement (billing_weight r) (gi_billing_weight g),
                    total_volume := supplement (total_volume r) (gi_total_volume g),
                    goods_value := supplement (goods_value r) (gi_goods_value g) \<rparr>)"

text \<open>\<open>_add_route\<close>: appends the row with the current counter, returns it and steps it.\<close>

definition add_route :: "runner \<Rightarrow> route \<Rightarrow> int \<times> runner" where
  "add_route st info =
     (route_id st,
      st\<lparr> routes := routes st @
             [\<lparr> rr_route_id = route_id st, rr_origin = origin info,
                rr_destination = destination info, rr_via = via info,
                rr_start_date = trade_start_date info, rr_end_date = trade_end_date info,
                rr_actual_weight = actual_weight info, rr_billing_weight = billing_weight info,
                rr_total_volume = total_volume info, rr_goods_value = goods_value info \<rparr>],
           route_id := route_id st + 1 \<rparr>)"

text \<open>\<open>_add_route_agent\<close>: appends the agent's row under the given route ID.\<close>

definition add_route_agent :: "runner \<Rightarrow> agent \<Rightarrow> int \<Rightarrow> int \<times> runner" where
  "add_route_agent st a rid =
     (agent_route_id st,
      st\<lparr> route_agents := route_agents st @
             [\<lparr> ar_agent_route_id = agent_route_id st, ar_route_id = rid, ar_agent = a \<rparr>],
           agent_route_id := agent_route_id st + 1 \<rparr>)"

text \<open>
  \<open>_process_quote_block\<close>.  A known raw key reuses its route ID; an unknown one adds a
  route and, when the new ID is truthy (not zero), records the key; then the agent is
  added under that ID.  (What follows the agent in the source only fills the lists left
  out here.)
\<close>

definition process_quote_block :: "goods_info option \<Rightarrow> runner \<Rightarrow> quote_block \<Rightarrow> runner" where
  "process_quote_block info st qb =
     (let route_key = get_unique_key (qb_route qb) in
      case route_key_to_id st route_key of
        Some current_route_id \<Rightarrow> snd (add_route_agent st (qb_agent qb) current_route_id)
      | None \<Rightarrow>
          (case add_route st (route_dict info (qb_route qb)) of
             (current_route_id, st1) \<Rightarrow>
               if current_route_id \<noteq> 0 then
                 snd (add_route_agent
                        (st1\<lparr> route_key_to_id := (route_key_to_id st1)(route_key \<mapsto> current_route_id) \<rparr>)
                        (qb_agent qb) current_route_id)
               else st1))"

text \<open>
  \<open>_process_sheet\<close>, given the scanner's result and the quote blocks \<open>parse_sheet\<close>
  returned for the sheet: nothing happens on an empty list, otherwise the blocks are
  processed in order.
\<close>

definition process_sheet :: "runner \<Rightarrow> goods_info option \<times> quote_block list \<Rightarrow> runner" where
  "process_sheet st sheet =
     (case sheet of (info, quote_blocks) \<Rightarrow>
        if quote_blocks = [] then st else foldl (process_quote_block info) st quote_blocks)"

text \<open>
  \<open>_process_file\<close>: the key map is emptied, then the sheets are processed in order.  (A
  file that cannot be read has no sheets.)  \<open>run\<close> processes the files in order.
\<close>

definition process_file :: "runner \<Rightarrow> (goods_info option \<times> quote_block list) list \<Rightarrow> runner" where
  "process_file st sheets = foldl process_sheet (st\<lparr> route_key_to_id := Map.empty \<rparr>) sheets"

definition run :: "(goods_info option \<times> quote_block list) list list \<Rightarrow> runner" where
  "run files = foldl process_file initial_runner files"

text \<open>
  To state the order of the route IDs: the raw keys of a file's quote blocks in the order
  they are processed, the distinct keys in the order of their first occurrence, and the
  position of a key among them.
\<close>

definition file_keys :: "(goods_info option \<times> quote_block list) list \<Rightarrow> ustr list" where
  "file_keys sheets = map (\<lambda>qb. get_unique_key (qb_route qb)) (concat (map snd sheets))"

fun collect_keys :: "'a list \<Rightarrow> 'a list \<Rightarrow> 'a list" where
  "collect_keys acc [] = acc"
| "collect_keys acc (k # ks) = collect_keys (if k \<in> set acc then acc else acc @ [k]) ks"

definition first_keys :: "'a list \<Rightarrow> 'a list" where
  "first_keys ks = collect_keys [] ks"

fun index_of :: "'a list \<Rightarrow> 'a \<Rightarrow> nat" where
  "index_of [] k = 0"
| "index_of (x # xs) k = (if x = k then 0 else Suc (index_of xs k))"

text \<open>
  The route IDs one expects the agent rows to carry, file after file: with \<open>base\<close> routes
  before the file, a quote block whose key is the \<open>i\<close>-th distinct key of the file (from
  0) belongs to route \<open>base + 1 + i\<close>.
\<close>

fun expected_route_ids :: "int \<Rightarrow> (goods_info option \<times> quote_block list) list list \<Rightarrow> int list" where
  "expected_route_ids base [] = []"
| "expected_route_ids base (sheets # files) =
     map (\<lambda>k. base + 1 + int (index_of (first_keys (file_keys sheets)) k)) (file_keys sheets) @
     expected_route_ids (base + int (length (first_keys (file_keys sheets)))) files"

text \<open>
  An example run.  A quote block with the given origin, destination, sheet name and agent
  name; two files, the first with the sheets ``order 1'' (Shenzhen to Hong Kong, quoted
  by two agents) and ``order 2'' (the same route), the second with a sheet ``order 1''
  again (the same route).
\<close>

definition example_quote :: "ustr \<Rightarrow> ustr \<Rightarrow> ustr \<Rightarrow> ustr \<Rightarrow> quote_block" where
  "example_quote from_loc to_loc sheet name =
     \<lparr> qb_route = empty_route\<lparr> origin := Some from_loc, destination := Some to_loc,
                     sheet_name := Some sheet \<rparr>,
       qb_agent = empty_agent\<lparr> agent_name := Some name \<rparr> \<rparr>"

definition example_files :: "(goods_info option \<times> quote_block list) list list" where
  "example_files =
     [[(None, [example_quote [0x6DF1, 0x5733] [0x9999, 0x6E2F] [0x8BA2, 0x5355, 0x31] [0x41],
               example_quote [0x6DF1, 0x5733] [0x9999, 0x6E2F] [0x8BA2, 0x5355, 0x31] [0x42]]),
       (None, [example_quote [0x6DF1, 0x5733] [0x9999, 0x6E2F] [0x8BA2, 0x5355, 0x32] [0x41]])],
      [(None, [example_quote [0x6DF1, 0x5733] [0x9999, 0x6E2F] [0x8BA2, 0x5355, 0x31] [0x43]])]]"

subsection \<open>Invariants of the run\<close>

text \<open>
  The state inside a file: \<open>base\<close> routes existed when the file began, \<open>acc\<close> are the
  file's distinct keys so far, in order, and the map sends each to its route.
\<close>

definition in_file :: "runner \<Rightarrow> int \<Rightarrow> ustr list \<Rightarrow> bool" where
  "in_file st base acc \<longleftrightarrow>
     0 \<le> base \<and>
     route_id st = base + 1 + int (length acc) \<and>
     map rr_route_id (routes st) = [1..base + int (length acc)] \<and>
     route_key_to_id st =
       (\<lambda>k. if k \<in> set acc then Some (base + 1 + int (index_of acc k)) else None)"

text \<open>The state between files: the routes are numbered from 1 and the counter is next.\<close>

definition between_files :: "runner \<Rightarrow> int \<Rightarrow> bool" where
  "between_files st base \<longleftrightarrow>
     0 \<le> base \<and> route_id st = base + 1 \<and> map rr_route_id (routes st) = [1..base]"

section \<open>Raw persistence keys\<close>

lemma get_unique_key_eq_iff:
  assumes "origin r1 = origin r2" "destination r1 = destination r2" "via r1 = via r2"
  shows "get_unique_key r1 = get_unique_key r2 \<longleftrightarrow> py_str (sheet_name r1) = py_str (sheet_name r2)"
  using assms by (simp add: get_unique_key_def)

lemma py_str_eq_iff:
  "py_str a = py_str b \<longleftrightarrow>
     a = b \<or> (a = None \<and> b = Some [0x4E, 0x6F, 0x6E, 0x65]) \<or>
     (a = Some [0x4E, 0x6F, 0x6E, 0x65] \<and> b = None)"
  by (auto simp: py_str_def split: option.splits)

text \<open>
  C5, as stated: two routes with the same origin, destination and via and different
  sheet identities would have different raw keys.  This fails when one route has no
  sheet name and the other's sheet is literally named \<open>None\<close>: both keys end in the
  word \<open>None\<close>.
\<close>

theorem raw_key_collision_counterexample:
  "sheet_name (empty_route\<lparr>origin := Some [0x6DF1, 0x5733], destination := Some [0x9999, 0x6E2F],
       sheet_name := None\<rparr>)
     \<noteq> sheet_name (empty_route\<lparr>origin := Some [0x6DF1, 0x5733],
       destination := Some [0x9999, 0x6E2F], sheet_name := Some [0x4E, 0x6F, 0x6E, 0x65]\<rparr>)
   \<and> get_unique_key (empty_route\<lparr>origin := Some [0x6DF1, 0x5733],
       destination := Some [0x9999, 0x6E2F], sheet_name := None\<rparr>)
     = get_unique_key (empty_route\<lparr>origin := Some [0x6DF1, 0x5733],
       destination := Some [0x9999, 0x6E2F], sheet_name := Some [0x4E, 0x6F, 0x6E, 0x65]\<rparr>)"
  by (simp add: get_unique_key_def py_str_def empty_route_def)

text \<open>
  C5, amended: for two routes with the same origin, destination and via whose sheet
  identities differ, the raw keys differ, unless one route has no sheet name and the
  other's sheet is named \<open>None\<close>.  In particular two different sheet names always give
  different keys.
\<close>

theorem raw_key_differs_with_sheet:
  assumes "origin r1 = origin r2" "destination r1 = destination r2" "via r1 = via r2"
    and "sheet_name r1 \<noteq> sheet_name r2"
    and "\<not> (sheet_name r1 = None \<and> sheet_name r2 = Some [0x4E, 0x6F, 0x6E, 0x65])"
    and "\<not> (sheet_name r1 = Some [0x4E, 0x6F, 0x6E, 0x65] \<and> sheet_name r2 = None)"
  shows "get_unique_key r1 \<noteq> get_unique_key r2"
  using assms get_unique_key_eq_iff [OF assms(1-3)] py_str_eq_iff by blast

theorem raw_key_differs_with_sheet_witness:
  "get_unique_key (empty_route\<lparr>origin := Some [0x6DF1, 0x5733],
       destination := Some [0x9999, 0x6E2F], sheet_name := Some [0x8BA2, 0x5355, 0x31]\<rparr>)
     \<noteq> get_unique_key (empty_route\<lparr>origin := Some [0x6DF1, 0x5733],
       destination := Some [0x9999, 0x6E2F], sheet_name := Some [0x8BA2, 0x5355, 0x32]\<rparr>)"
  by (rule raw_key_differs_with_sheet) (simp_all add: empty_route_def)

section \<open>Normalisation is not idempotent in general\<close>

lemma strip_by_decomp: "\<exists>ys. s = rstrip_by P s @ ys"
proof -
  have "rev s = takeWhile P (rev s) @ dropWhile P (rev s)" by simp
  then have "s = rev (dropWhile P (rev s)) @ rev (takeWhile P (rev s))"
    by (metis rev_append rev_rev_ident)
  then show ?thesis unfolding rstrip_by_def by blast
qed

lemma rstrip_by_last: "rstrip_by P s \<noteq> [] \<Longrightarrow> \<not> P (last (rstrip_by P s))"
  unfolding rstrip_by_def by (simp add: last_rev hd_dropWhile)

lemma rstrip_by_hd: "rstrip_by P s \<noteq> [] \<Longrightarrow> hd (rstrip_by P s) = hd s"
  using strip_by_decomp [of s P] by (metis hd_append2)

lemma lstrip_by_hd: "lstrip_by P s \<noteq> [] \<Longrightarrow> \<not> P (hd (lstrip_by P s))"
  unfolding lstrip_by_def by (simp add: hd_dropWhile)

lemma trimmed_strip: "trimmed (strip s)"
proof (cases "strip s = []")
  case True
  then show ?thesis by (simp add: trimmed_def)
next
  case False
  then have ne: "rstrip_by is_space (lstrip_by is_space s) \<noteq> []"
    by (simp add: strip_def strip_by_def)
  then have "lstrip_by is_space s \<noteq> []"
    by (auto simp: rstrip_by_def)
  with ne show ?thesis
    by (simp add: trimmed_def strip_def strip_by_def rstrip_by_last rstrip_by_hd lstrip_by_hd)
qed

lemma strip_trimmed: "trimmed s \<Longrightarrow> strip s = s"
proof (cases "s = []")
  case True
  then show ?thesis by (simp add: strip_def strip_by_def rstrip_by_def lstrip_by_def)
next
  case False
  assume "trimmed s"
  with False have h: "\<not> is_space (hd s)" and l: "\<not> is_space (last s)"
    by (simp_all add: trimmed_def)
  from False h have a: "dropWhile is_space s = s"
    by (cases s) simp_all
  from False l have b: "dropWhile is_space (rev s) = rev s"
    by (cases "rev s") (simp_all add: last_rev [symmetric] hd_rev)
  show ?thesis
    by (simp add: strip_def strip_by_def rstrip_by_def lstrip_by_def a b)
qed

lemma py_replace_nonempty_last:
  "old \<noteq> [] \<Longrightarrow> new \<noteq> [] \<Longrightarrow> \<not> is_space (last new) \<Longrightarrow> s \<noteq> [] \<Longrightarrow>
     py_replace old new s \<noteq> [] \<and>
     (\<not> is_space (last s) \<longrightarrow> \<not> is_space (last (py_replace old new s)))"
proof (induction old new s rule: py_replace.induct)
  case (1 old new)
  then show ?case by simp
next
  case (2 old new c cs)
  show ?case
  proof (cases "starts_with old (c # cs)")
    case True
    show ?thesis
    proof (cases "drop (length old - 1) cs = []")
      case True
      with \<open>starts_with old (c # cs)\<close> "2.prems" show ?thesis by simp
    next
      case False
      then have "last (drop (length old - 1) cs) = last (c # cs)"
        by (cases "cs = []") (simp_all add: last_drop)
      with False \<open>starts_with old (c # cs)\<close> "2.prems" "2.IH"(2) show ?thesis by simp
    qed
  next
    case False
    with "2.prems" "2.IH"(3) show ?thesis by (cases "cs = []") simp_all
  qed
qed

lemma py_replace_hd:
  assumes "old \<noteq> []" "new \<noteq> []" "\<not> is_space (hd new)" "s \<noteq> []" "\<not> is_space (hd s)"
  shows "\<not> is_space (hd (py_replace old new s))"
  using assms by (cases s) auto

lemma trimmed_py_replace:
  assumes "old \<noteq> []" "new \<noteq> []" "\<not> is_space (hd new)" "\<not> is_space (last new)" "trimmed s"
  shows "trimmed (py_replace old new s)"
proof (cases "s = []")
  case True
  with assms show ?thesis by (simp add: trimmed_def)
next
  case False
  with assms py_replace_nonempty_last [of old new s] py_replace_hd [of old new s]
  show ?thesis by (simp add: trimmed_def)
qed

lemma normalization_map_entries:
  "\<forall>m \<in> set location_normalization_map.
     fst m \<noteq> [] \<and> snd m \<noteq> [] \<and> \<not> is_space (hd (snd m)) \<and> \<not> is_space (last (snd m))"
  by (simp add: location_normalization_map_def is_space_def)

lemma trimmed_foldl_apply_mapping:
  assumes "\<forall>m \<in> set ms. fst m \<noteq> [] \<and> snd m \<noteq> [] \<and> \<not> is_space (hd (snd m)) \<and>
             \<not> is_space (last (snd m))"
  shows "trimmed s \<Longrightarrow> trimmed (foldl apply_mapping s ms)"
  using assms
proof (induction ms arbitrary: s)
  case Nil
  then show ?case by simp
next
  case (Cons m ms)
  then have "trimmed (apply_mapping s m)"
    by (simp add: apply_mapping_def trimmed_py_replace)
  with Cons show ?case by simp
qed

lemma foldl_apply_mapping_settled:
  "list_all (\<lambda>m. \<not> py_in (fst m) s) ms \<Longrightarrow> foldl apply_mapping s ms = s"
  by (induction ms) (simp_all add: apply_mapping_def)

lemma trimmed_normalize_location:
  "normalize_location x = Some y \<Longrightarrow> y \<noteq> [] \<Longrightarrow> trimmed y"
  by (auto simp: normalize_location_def trimmed_strip trimmed_foldl_apply_mapping
        normalization_map_entries split: option.splits if_splits)

text \<open>
  C9, as stated: \<open>normalize_location\<close> applied twice would equal \<open>normalize_location\<close>
  applied once, on every text.  The loop replaces each long name once, in one pass from
  the left, so a replacement can bring a new occurrence of the same long name
  together.  The text below is ``China China Hong Kong Hong Kong'' (eight characters):
  one application gives ``China Hong Kong Hong Kong'', a second one ``Hong Kong Hong
  Kong''.
\<close>

theorem normalize_location_not_idempotent_counterexample:
  "normalize_location (normalize_location
      (Some [0x4E2D, 0x56FD, 0x4E2D, 0x56FD, 0x9999, 0x6E2F, 0x9999, 0x6E2F]))
   \<noteq> normalize_location (Some [0x4E2D, 0x56FD, 0x4E2D, 0x56FD, 0x9999, 0x6E2F, 0x9999, 0x6E2F])"
  by code_simp

text \<open>
  C9, amended: \<open>normalize_location\<close> applied twice equals \<open>normalize_location\<close> applied
  once on every text whose first result is settled, that is, contains none of the long
  names of the table any more.
\<close>

theorem normalize_location_idempotent_when_settled:
  assumes "settled (normalize_location x)"
  shows "normalize_location (normalize_location x) = normalize_location x"
proof (cases "normalize_location x")
  case None
  then show ?thesis by (simp add: normalize_location_def)
next
  case (Some y)
  show ?thesis
  proof (cases "y = []")
    case True
    with Some show ?thesis by (simp add: normalize_location_def)
  next
    case False
    with Some have "strip y = y"
      by (simp add: trimmed_normalize_location strip_trimmed)
    moreover from assms Some have "foldl apply_mapping y location_normalization_map = y"
      by (simp add: settled_def foldl_apply_mapping_settled)
    ultimately show ?thesis using Some False
      by (simp add: normalize_location_def)
  qed
qed

text \<open>
  The witness is ``Malaysia Johor'' (six characters): the first application shortens it
  to ``Johor'', which is settled, and the second one leaves ``Johor''.
\<close>

theorem normalize_location_idempotent_when_settled_witness:
  "settled (normalize_location (Some [0x9A6C, 0x6765, 0x897F, 0x4E9A, 0x67D4, 0x4F5B])) \<and>
   normalize_location (normalize_location (Some [0x9A6C, 0x6765, 0x897F, 0x4E9A, 0x67D4, 0x4F5B]))
     = Some [0x67D4, 0x4F5B]"
proof -
  have n: "normalize_location (Some [0x9A6C, 0x6765, 0x897F, 0x4E9A, 0x67D4, 0x4F5B])
             = Some [0x67D4, 0x4F5B]"
    by code_simp
  have s: "settled (normalize_location (Some [0x9A6C, 0x6765, 0x897F, 0x4E9A, 0x67D4, 0x4F5B]))"
    by code_simp
  from normalize_location_idempotent_when_settled [OF s] n s show ?thesis by simp
qed

section \<open>The membership test\<close>

lemma is_valid_location_iff:
  "is_valid_location s \<longleftrightarrow>
     s \<noteq> [] \<and> (\<exists>v \<in> set LOCATION_WHITELIST.
                 strip s = v \<or> py_in v (strip s) \<or> py_in (strip s) v)"
  by (auto simp: is_valid_location_def Let_def list_ex_iff)

lemma py_in_Nil: "py_in [] s"
  by (cases s) (simp_all add: starts_with_def)

lemma blank_is_valid_location:
  "s \<noteq> [] \<Longrightarrow> strip s = [] \<Longrightarrow> is_valid_location s"
proof -
  have "[0x6DF1, 0x5733] \<in> set LOCATION_WHITELIST"
    by (simp add: LOCATION_WHITELIST_def wl_mainland_china_def)
  then show "s \<noteq> [] \<Longrightarrow> strip s = [] \<Longrightarrow> is_valid_location s"
    unfolding is_valid_location_iff using py_in_Nil by metis
qed

text \<open>
  C8: \<open>is_valid_location\<close> would be true exactly for the texts that are non-empty after
  trimming and equal, contain or are contained in an entry.  The function tests
  emptiness before it trims, so on a text of white space only (here a single space) the
  trimmed text is empty, the empty text is contained in every entry, and the answer is
  true.
\<close>

theorem is_valid_location_single_space:
  "strip [0x20] = [] \<and> is_valid_location [0x20]"
proof -
  have "strip [0x20] = []"
    by (simp add: strip_def strip_by_def rstrip_by_def lstrip_by_def is_space_def)
  then show ?thesis by (simp add: blank_is_valid_location)
qed

section \<open>What the cleaners return when little is left\<close>

text \<open>
  C7, as stated: when cleaning leaves nothing, or fewer than two characters, the
  original text would be returned.  \<open>_deep_clean_location\<close> does not: on ``sea freight''
  (two characters, a business word) the cleaned text is empty, no core place name occurs
  in the original, and the empty text is returned.
\<close>

theorem deep_clean_location_counterexample:
  "length (strip_chars edge_punctuation (keyword_rounds 3 (clean_location_text [0x6D77, 0x8FD0]))) < 2
   \<and> deep_clean_location [0x6D77, 0x8FD0] \<noteq> [0x6D77, 0x8FD0]"
  by code_simp

text \<open>
  C7, amended: \<open>_clean_location_suffix\<close> returns the original text when its passes leave
  fewer than two characters.  \<open>_deep_clean_location\<close>, when its cleaning of a non-empty
  text leaves fewer than two characters, returns the first core place name that occurs
  in the original text, and the short cleaned text itself when none occurs.
\<close>

theorem short_results_of_the_cleaners:
  "(length (suffix_rounds 3 location) < 2 \<longrightarrow> clean_location_suffix location = location) \<and>
   (text \<noteq> [] \<and>
    length (strip_chars edge_punctuation (keyword_rounds 3 (clean_location_text text))) < 2 \<longrightarrow>
    deep_clean_location text =
      (case find (\<lambda>wl_location. py_in wl_location text) core_locations of
         Some wl_location \<Rightarrow> wl_location
       | None \<Rightarrow> strip_chars edge_punctuation (keyword_rounds 3 (clean_location_text text))))"
  by (simp add: clean_location_suffix_def deep_clean_location_def Let_def)

text \<open>
  The witness: the one-character particle U+7684, itself a suffix of the table, comes
  back unchanged from \<open>_clean_location_suffix\<close>; ``sea freight Shenzhen'' is cut to
  nothing by \<open>_deep_clean_location\<close>, which then returns the core name ``Shenzhen''.
\<close>

theorem short_results_of_the_cleaners_witness:
  "length (suffix_rounds 3 [0x7684]) < 2 \<and>
   clean_location_suffix [0x7684] = [0x7684] \<and>
   length (strip_chars edge_punctuation
     (keyword_rounds 3 (clean_location_text [0x6D77, 0x8FD0, 0x6DF1, 0x5733]))) < 2 \<and>
   deep_clean_location [0x6D77, 0x8FD0, 0x6DF1, 0x5733] = [0x6DF1, 0x5733]"
proof -
  have a: "length (suffix_rounds 3 [0x7684]) < 2"
    by code_simp
  have b: "length (strip_chars edge_punctuation
     (keyword_rounds 3 (clean_location_text [0x6D77, 0x8FD0, 0x6DF1, 0x5733]))) < 2"
    by code_simp
  have c: "find (\<lambda>wl_location. py_in wl_location [0x6D77, 0x8FD0, 0x6DF1, 0x5733]) core_locations
             = Some [0x6DF1, 0x5733]"
    by code_simp
  from short_results_of_the_cleaners [of "[0x7684]" "[0x6D77, 0x8FD0, 0x6DF1, 0x5733]"] a b c
  show ?thesis by simp
qed

section \<open>Route IDs and the agents' references\<close>

lemma collect_keys_set: "set (collect_keys acc ks) = set acc \<union> set ks"
  by (induction ks arbitrary: acc) auto

lemma collect_keys_distinct: "distinct acc \<Longrightarrow> distinct (collect_keys acc ks)"
  by (induction ks arbitrary: acc) auto

lemma collect_keys_extends: "\<exists>zs. collect_keys acc ks = acc @ zs"
proof (induction ks arbitrary: acc)
  case Nil
  then show ?case by simp
next
  case (Cons k ks)
  from Cons [of "if k \<in> set acc then acc else acc @ [k]"] show ?case
    by (auto split: if_splits)
qed

lemma collect_keys_append:
  "collect_keys acc (ks @ ks') = collect_keys (collect_keys acc ks) ks'"
  by (induction ks arbitrary: acc) simp_all

lemma index_of_append: "k \<in> set xs \<Longrightarrow> index_of (xs @ ys) k = index_of xs k"
  by (induction xs) auto

lemma index_of_new: "k \<notin> set xs \<Longrightarrow> index_of (xs @ [k]) k = length xs"
  by (induction xs) auto

lemma index_of_less: "k \<in> set xs \<Longrightarrow> index_of xs k < length xs"
  by (induction xs) auto

lemma index_of_collect_keys:
  "k \<in> set acc \<Longrightarrow> index_of (collect_keys acc ks) k = index_of acc k"
  using collect_keys_extends [of acc ks] by (auto simp: index_of_append)

lemma process_quote_block_in_file:
  fixes qb :: quote_block and acc :: "ustr list"
  assumes "in_file st base acc"
  defines "k \<equiv> get_unique_key (qb_route qb)"
  defines "acc' \<equiv> (if k \<in> set acc then acc else acc @ [k])"
  shows "in_file (process_quote_block info st qb) base acc'"
    and "map ar_route_id (route_agents (process_quote_block info st qb))
           = map ar_route_id (route_agents st) @ [base + 1 + int (index_of acc' k)]"
proof -
  show "in_file (process_quote_block info st qb) base acc'"
  proof (cases "k \<in> set acc")
    case True
    with assms show ?thesis
      by (simp add: in_file_def process_quote_block_def add_route_agent_def)
  next
    case False
    from assms(1) have rid: "route_id st \<noteq> 0" and base: "0 \<le> base"
      by (simp_all add: in_file_def)
    from base have up: "[1..base + int (length acc) + 1] = [1..base + int (length acc)] @
        [base + int (length acc) + 1]"
      by (simp add: upto_rec2)
    from False assms rid up show ?thesis
      by (auto simp: in_file_def process_quote_block_def add_route_agent_def add_route_def
            index_of_append index_of_new fun_eq_iff add.commute add.left_commute)
  qed
  show "map ar_route_id (route_agents (process_quote_block info st qb))
           = map ar_route_id (route_agents st) @ [base + 1 + int (index_of acc' k)]"
  proof (cases "k \<in> set acc")
    case True
    with assms show ?thesis
      by (simp add: in_file_def process_quote_block_def add_route_agent_def)
  next
    case False
    from assms(1) have rid: "route_id st \<noteq> 0"
      by (simp add: in_file_def)
    from False assms rid show ?thesis
      by (simp add: in_file_def process_quote_block_def add_route_agent_def add_route_def
            index_of_new)
  qed
qed

lemma process_quote_blocks_in_file:
  fixes qbs :: "quote_block list"
  assumes "in_file st base acc"
  defines "ks \<equiv> map (\<lambda>qb. get_unique_key (qb_route qb)) qbs"
  shows "in_file (foldl (process_quote_block info) st qbs) base (collect_keys acc ks) \<and>
         map ar_route_id (route_agents (foldl (process_quote_block info) st qbs))
           = map ar_route_id (route_agents st) @
             map (\<lambda>k. base + 1 + int (index_of (collect_keys acc ks) k)) ks"
  using assms(1) unfolding ks_def
proof (induction qbs arbitrary: st acc)
  case Nil
  then show ?case by simp
next
  case (Cons qb qbs)
  let ?k = "get_unique_key (qb_route qb)"
  let ?acc = "if ?k \<in> set acc then acc else acc @ [?k]"
  let ?st = "process_quote_block info st qb"
  let ?ks = "map (\<lambda>qb. get_unique_key (qb_route qb)) qbs"
  from process_quote_block_in_file [OF Cons.prems, of info qb]
  have a: "in_file ?st base ?acc"
    and b: "map ar_route_id (route_agents ?st)
              = map ar_route_id (route_agents st) @ [base + 1 + int (index_of ?acc ?k)]"
    by simp_all
  have "?k \<in> set ?acc" by simp
  then have "index_of (collect_keys ?acc ?ks) ?k = index_of ?acc ?k"
    by (rule index_of_collect_keys)
  with Cons.IH [OF a] b show ?case by simp
qed

lemma process_sheets_in_file:
  assumes "in_file st base acc"
  shows "in_file (foldl process_sheet st sheets) base (collect_keys acc (file_keys sheets)) \<and>
         map ar_route_id (route_agents (foldl process_sheet st sheets))
           = map ar_route_id (route_agents st) @
             map (\<lambda>k. base + 1 + int (index_of (collect_keys acc (file_keys sheets)) k))
               (file_keys sheets)"
  using assms
proof (induction sheets arbitrary: st acc)
  case Nil
  then show ?case by (simp add: file_keys_def)
next
  case (Cons sheet sheets)
  obtain info qbs where sheet: "sheet = (info, qbs)" by (cases sheet)
  let ?ks = "map (\<lambda>qb. get_unique_key (qb_route qb)) qbs"
  let ?st = "process_sheet st sheet"
  have st: "?st = foldl (process_quote_block info) st qbs"
    by (simp add: process_sheet_def sheet)
  from process_quote_blocks_in_file [OF Cons.prems, of info qbs]
  have a: "in_file ?st base (collect_keys acc ?ks)"
    and b: "map ar_route_id (route_agents ?st) = map ar_route_id (route_agents st) @
              map (\<lambda>k. base + 1 + int (index_of (collect_keys acc ?ks) k)) ?ks"
    by (simp_all add: st)
  have fk: "file_keys (sheet # sheets) = ?ks @ file_keys sheets"
    by (simp add: file_keys_def sheet)
  have stable: "map (\<lambda>k. base + 1 + int (index_of (collect_keys acc ?ks) k)) ?ks
      = map (\<lambda>k. base + 1 + int (index_of (collect_keys (collect_keys acc ?ks) (file_keys sheets)) k)) ?ks"
    by (simp add: index_of_collect_keys collect_keys_set)
  from Cons.IH [OF a] b stable show ?case
    by (simp add: fk collect_keys_append)
qed

lemma process_file_between_files:
  assumes "between_files st base"
  shows "between_files (process_file st sheets)
           (base + int (length (first_keys (file_keys sheets)))) \<and>
         map ar_route_id (route_agents (process_file st sheets))
           = map ar_route_id (route_agents st) @
             map (\<lambda>k. base + 1 + int (index_of (first_keys (file_keys sheets)) k))
               (file_keys sheets)"
proof -
  from assms have "in_file (st\<lparr>route_key_to_id := Map.empty\<rparr>) base []"
    by (simp add: between_files_def in_file_def)
  from process_sheets_in_file [OF this, of sheets] show ?thesis
    by (simp add: process_file_def first_keys_def in_file_def between_files_def)
qed

lemma run_from_between_files:
  assumes "between_files st base"
  shows "\<exists>n. between_files (foldl process_file st files) n \<and> base \<le> n \<and>
           map ar_route_id (route_agents (foldl process_file st files))
             = map ar_route_id (route_agents st) @ expected_route_ids base files \<and>
           (\<forall>i \<in> set (expected_route_ids base files). base + 1 \<le> i \<and> i \<le> n)"
  using assms
proof (induction files arbitrary: st base)
  case Nil
  then show ?case by auto
next
  case (Cons sheets files)
  let ?fk = "first_keys (file_keys sheets)"
  let ?base = "base + int (length ?fk)"
  from process_file_between_files [OF Cons.prems, of sheets]
  have a: "between_files (process_file st sheets) ?base"
    and b: "map ar_route_id (route_agents (process_file st sheets))
              = map ar_route_id (route_agents st) @
                map (\<lambda>k. base + 1 + int (index_of ?fk k)) (file_keys sheets)"
    by simp_all
  from Cons.IH [OF a] obtain n where
    n: "between_files (foldl process_file (process_file st sheets) files) n" "?base \<le> n"
      "map ar_route_id (route_agents (foldl process_file (process_file st sheets) files))
         = map ar_route_id (route_agents (process_file st sheets)) @ expected_route_ids ?base files"
      "\<forall>i \<in> set (expected_route_ids ?base files). ?base + 1 \<le> i \<and> i \<le> n"
    by blast
  have "\<forall>k \<in> set (file_keys sheets). index_of ?fk k < length ?fk"
    by (simp add: index_of_less first_keys_def collect_keys_set)
  then have here: "\<forall>k \<in> set (file_keys sheets).
      base + 1 \<le> base + 1 + int (index_of ?fk k) \<and> base + 1 + int (index_of ?fk k) \<le> ?base"
    by auto
  from n b here show ?case
    by (intro exI [of _ n]) (auto simp: Ball_def)
qed

text \<open>
  C10, as stated: throughout a run the route IDs are consecutive from 1, given out in
  the order in which raw keys first occur, so that one raw key has one route ID.  In the
  example run the first and the fourth quote block have the same raw key (the same
  places under the same sheet name, in two files), there are two distinct raw keys, and
  yet the fourth agent row carries route ID 3, not 1, and there are three routes: the
  key map is emptied at every file.
\<close>

theorem same_key_in_two_files_counterexample:
  "concat (map file_keys example_files) ! 0 = concat (map file_keys example_files) ! 3 \<and>
   length (first_keys (concat (map file_keys example_files))) = 2 \<and>
   map ar_route_id (route_agents (run example_files)) = [1, 1, 2, 3] \<and>
   map rr_route_id (routes (run example_files)) = [1, 2, 3]"
  by code_simp

text \<open>
  C10, amended: throughout a run, every row of \<open>route_agents\<close> carries the route ID of a
  row already in \<open>routes\<close>, and the route IDs are consecutive from 1, given out in the
  order in which raw keys first occur within each file: the quote block whose key is the
  \<open>i\<close>-th distinct key of its file belongs to the \<open>i\<close>-th route added by that file, and a
  key that comes again in a later file gets a new route.  The statement is about the
  state after any list of files; a state in the middle of a run is the state after the
  files and quote blocks processed so far, which is such a list as well.
\<close>

theorem route_ids_consecutive_and_referenced:
  "map rr_route_id (routes (run files)) = [1..int (length (routes (run files)))] \<and>
   (\<forall>a \<in> set (route_agents (run files)).
      \<exists>r \<in> set (routes (run files)). rr_route_id r = ar_route_id a) \<and>
   map ar_route_id (route_agents (run files)) = expected_route_ids 0 files"
proof -
  have "between_files initial_runner 0"
    by (simp add: between_files_def initial_runner_def)
  from run_from_between_files [OF this, of files] obtain n where
    n: "between_files (run files) n"
      "map ar_route_id (route_agents (run files))
         = map ar_route_id (route_agents initial_runner) @ expected_route_ids 0 files"
      "\<forall>i \<in> set (expected_route_ids 0 files). 0 + 1 \<le> i \<and> i \<le> n"
    unfolding run_def by blast
  have agents: "map ar_route_id (route_agents (run files)) = expected_route_ids 0 files"
    using n(2) by (simp add: initial_runner_def)
  from n(1) have ids: "map rr_route_id (routes (run files)) = [1..n]" and "0 \<le> n"
    by (simp_all add: between_files_def)
  from ids have "length (map rr_route_id (routes (run files))) = length [1..n]"
    by simp
  with \<open>0 \<le> n\<close> have len: "int (length (routes (run files))) = n"
    by simp
  have "\<exists>r \<in> set (routes (run files)). rr_route_id r = ar_route_id a"
    if "a \<in> set (route_agents (run files))" for a
  proof -
    from that have "ar_route_id a \<in> set (map ar_route_id (route_agents (run files)))"
      by simp
    with agents n(3) have "ar_route_id a \<in> set [1..n]" by simp
    with ids have "ar_route_id a \<in> set (map rr_route_id (routes (run files)))" by simp
    then show ?thesis by auto
  qed
  with ids len agents show ?thesis by simp
qed

text \<open>
  The witness: a first file with a sheet of two quotes for the same route (two agents)
  and a second sheet with that route again, then a second file whose sheet has the name
  and the route of the first file's first sheet.  The agents' rows carry the route IDs
  1, 1, 2 and 3.
\<close>

theorem route_ids_consecutive_and_referenced_witness:
  "map rr_route_id (routes (run example_files)) = [1, 2, 3] \<and>
   map ar_route_id (route_agents (run example_files)) = [1, 1, 2, 3]"
proof -
  have e: "expected_route_ids 0 example_files = [1, 1, 2, 3]"
    by code_simp
  have l: "length (routes (run example_files)) = 3"
    by code_simp
  have u: "[1..3] = [1, 2, 3::int]"
    by code_simp
  from route_ids_consecutive_and_referenced [of example_files] e l u show ?thesis by simp
qed

section \<open>Three places in a header\<close>

text \<open>
  The pattern's path puts the middle place into the via and the last into the
  destination, whatever the match.
\<close>

lemma parts_of_match_three_places:
  assumes "m_group m 1 = Some a" "m_group m 3 = Some b" "m_group m 5 = Some c"
    and "b \<noteq> []" "c \<noteq> []"
    and "is_valid_location (deep_clean_location a)" "is_valid_location (deep_clean_location b)"
      "is_valid_location (deep_clean_location c)"
  shows "\<exists>p. parts_of_match m text = Some p \<and> rp_origin p = deep_clean_location a \<and>
           rp_via p = Some (deep_clean_location b) \<and> rp_destination p = deep_clean_location c"
  using assms by (auto simp: parts_of_match_def Let_def is_valid_location_def)

text \<open>The manual split puts the second valid place into the destination, the third into the via.\<close>

lemma split_on_three_places:
  assumes "split_on sep text = Some p"
  shows "\<exists>p0 p1 rest.
           filter (\<lambda>p. p \<noteq> [] \<and> is_valid_location p)
             (map deep_clean_location (filter (\<lambda>p. p \<noteq> []) (map strip (py_split sep text))))
             = p0 # p1 # rest \<and>
           rp_origin p = p0 \<and> rp_destination p = p1 \<and>
           rp_via p = (case rest of [] \<Rightarrow> None | p2 # _ \<Rightarrow> Some p2)"
  using assms by (auto simp: split_on_def Let_def split: if_splits list.splits)

text \<open>
  C1: for a header \<open>A-sep-B-sep-C\<close> of three valid places, origin \<open>A\<close>, via \<open>B\<close>,
  destination \<open>C\<close>, on the pattern's path and on the manual split alike.  The header
  below is ``Shenzhen, Hong Kong, Singapore'' joined by the full-width hyphen U+FF0D,
  which is a separator of the manual split and not of the pattern: the pattern finds no
  match, and the manual split returns Hong Kong as the destination and Singapore as the
  via.
\<close>

theorem manual_split_swaps_via_and_destination:
  "is_valid_location [0x6DF1, 0x5733] \<and> is_valid_location [0x9999, 0x6E2F] \<and>
   is_valid_location [0x65B0, 0x52A0, 0x5761] \<and>
   re_search route_pattern
     [0x6DF1, 0x5733, 0xFF0D, 0x9999, 0x6E2F, 0xFF0D, 0x65B0, 0x52A0, 0x5761] = None \<and>
   extract_route [0x6DF1, 0x5733, 0xFF0D, 0x9999, 0x6E2F, 0xFF0D, 0x65B0, 0x52A0, 0x5761] None =
     \<lparr> res_origin = Some [0x6DF1, 0x5733], res_destination = Some [0x9999, 0x6E2F],
       res_via = Some [0x65B0, 0x52A0, 0x5761], res_trade_remark = None, res_weight = None,
       res_volume = None, res_value = None,
       res_raw = [0x6DF1, 0x5733, 0xFF0D, 0x9999, 0x6E2F, 0xFF0D, 0x65B0, 0x52A0, 0x5761] \<rparr>"
  by code_simp

text \<open>The same three places joined by the plain hyphen go through the pattern.\<close>

lemma pattern_keeps_via_in_the_middle:
  "extract_route [0x6DF1, 0x5733, 0x2D, 0x9999, 0x6E2F, 0x2D, 0x65B0, 0x52A0, 0x5761] None =
     \<lparr> res_origin = Some [0x6DF1, 0x5733], res_destination = Some [0x65B0, 0x52A0, 0x5761],
       res_via = Some [0x9999, 0x6E2F], res_trade_remark = None, res_weight = None,
       res_volume = None, res_value = None,
       res_raw = [0x6DF1, 0x5733, 0x2D, 0x9999, 0x6E2F, 0x2D, 0x65B0, 0x52A0, 0x5761] \<rparr>"
  by code_simp

section \<open>Routes with one end missing\<close>

text \<open>On the single-quote path a route that is not complete gives no quote.\<close>

lemma single_quote_needs_complete_route:
  assumes "base_route_of route_text name = Some base_route" "\<not> complete base_route"
    and "identify_structure table_data = Inr (Some s)" "is_single_column table_data s"
  shows "parse_single_table table_data route_text name = Inr []"
  using assms by (simp add: parse_single_table_def)

text \<open>On the multi-column path every named column gives a quote, complete route or not.\<close>

lemma multi_column_ignores_completeness:
  assumes "2 \<le> length table_data" "base_route_of route_text name = Some base_route"
    and "identify_structure table_data = Inr (Some s)" "\<not> is_single_column table_data s"
  shows "parse_single_table table_data route_text name =
           Inr (List.map_filter
                  (\<lambda>col_idx. extract_column_quote table_data col_idx s base_route name)
                  [1..<num_cols s])"
  using assms by (auto simp: parse_single_table_def)

text \<open>
  C3: a span whose route has only one of origin and destination gives no quote, on the
  single-quote path and on the multi-column path.  The sheet below is named ``Shenzhen'';
  its header is ``Shenzhen>Hong Kong'', which the boundary scan accepts (\<open>>\<close> is one of
  its separators) and from which the extractor gets nothing (\<open>>\<close> is none of its
  separators), so the origin comes from the sheet name and the destination stays
  \<open>None\<close>; the agent row names three agents.  \<open>parse_sheet\<close> returns a quote, with no
  destination.
\<close>

theorem partial_route_emitted_on_multi_column_path:
  "parse_sheet
     [[[0x6DF1, 0x5733, 0x3E, 0x9999, 0x6E2F]],
      [[0x4EE3, 0x7406], [0x41, 0x31], [0x42, 0x32], [0x43, 0x33]]]
     (Some [0x6DF1, 0x5733]) None (None, None)
   = Inr [\<lparr> qb_route = empty_route\<lparr> origin := Some [0x6DF1, 0x5733],
                  raw := Some [0x6DF1, 0x5733, 0x3E, 0x9999, 0x6E2F],
                  sheet_name := Some [0x6DF1, 0x5733] \<rparr>,
            qb_agent = empty_agent\<lparr> agent_name := Some [0x41, 0x31] \<rparr> \<rparr>]"
  by code_simp

section \<open>The merge within a sheet\<close>

lemma first_occurrences_subset: "set (first_occurrences key xs) \<subseteq> set xs"
  by (induction xs) auto

lemma first_occurrences_distinct: "distinct (map key (first_occurrences key xs))"
proof (induction xs)
  case Nil
  then show ?case by simp
next
  case (Cons x xs)
  then have "distinct (map key (filter (\<lambda>y. key y \<noteq> key x) (first_occurrences key xs)))"
    by (simp add: distinct_map_filter)
  then show ?case by auto
qed

lemma first_occurrences_same_key:
  assumes "\<forall>y \<in> set xs. key y = key x"
  shows "first_occurrences key (x # xs) = [x]"
proof -
  from assms first_occurrences_subset [of key xs]
  have "filter (\<lambda>y. key y \<noteq> key x) (first_occurrences key xs) = []"
    by (auto simp: filter_empty_conv)
  then show ?thesis by simp
qed

lemma all_quotes_merge_quote:
  "all_quotes (merge_quote name st q) =
     (if quote_signature q \<in> set (seen_routes st) then all_quotes st else all_quotes st @ [q])"
  by (simp add: merge_quote_def quote_signature_def Let_def)

lemma seen_routes_merge_quote:
  "set (seen_routes (merge_quote name st q)) = insert (quote_signature q) (set (seen_routes st))"
  by (auto simp: merge_quote_def quote_signature_def Let_def)

lemma all_quotes_foldl_merge_quote:
  "all_quotes (foldl (merge_quote name) st qs) =
     all_quotes st @
     filter (\<lambda>q. quote_signature q \<notin> set (seen_routes st)) (first_occurrences quote_signature qs)"
proof (induction qs arbitrary: st)
  case Nil
  then show ?case by simp
next
  case (Cons q qs)
  show ?case
  proof (cases "quote_signature q \<in> set (seen_routes st)")
    case True
    then have "filter (\<lambda>y. quote_signature y \<notin> set (seen_routes st) \<and> quote_signature y \<noteq> quote_signature q)
                 (first_occurrences quote_signature qs)
             = filter (\<lambda>y. quote_signature y \<notin> set (seen_routes st))
                 (first_occurrences quote_signature qs)"
      by (intro filter_cong) auto
    with True show ?thesis
      by (simp add: Cons.IH all_quotes_merge_quote seen_routes_merge_quote)
  next
    case False
    have "filter (\<lambda>y. quote_signature y \<noteq> quote_signature q \<and> quote_signature y \<notin> set (seen_routes st))
                 (first_occurrences quote_signature qs)
             = filter (\<lambda>y. quote_signature y \<notin> set (seen_routes st) \<and> quote_signature y \<noteq> quote_signature q)
                 (first_occurrences quote_signature qs)"
      by (intro filter_cong) auto
    with False show ?thesis
      by (simp add: Cons.IH all_quotes_merge_quote seen_routes_merge_quote)
  qed
qed

lemma parse_tables_span_quotes:
  "parse_tables sheet_data name st spans =
     (case span_quotes sheet_data name spans of
        Inl e \<Rightarrow> Inl e
      | Inr qs \<Rightarrow> Inr (foldl (merge_quote name) st qs))"
proof (induction spans arbitrary: st)
  case Nil
  then show ?case by simp
next
  case (Cons span spans)
  obtain start_row end_row route_text where "span = (start_row, end_row, route_text)"
    by (cases span)
  with Cons show ?case
    by (simp split: sum.splits)
qed

lemma find_table_boundaries_Nil: "find_table_boundaries [] = []"
  by (simp add: find_table_boundaries_def scanned_spans_def)

lemma parse_sheet_first_occurrences:
  assumes "span_quotes sheet_data name (find_table_boundaries sheet_data) = Inr qs" "qs \<noteq> []"
  shows "\<exists>st. parse_tables sheet_data name
                \<lparr> all_quotes = [], seen_routes = [], has_content_route = False \<rparr>
                (find_table_boundaries sheet_data) = Inr st \<and>
              all_quotes st = first_occurrences quote_signature qs \<and> all_quotes st \<noteq> [] \<and>
              sheet_data \<noteq> []"
proof -
  from assms have ne: "sheet_data \<noteq> []"
    by (auto simp: find_table_boundaries_Nil)
  from assms(2) have "first_occurrences quote_signature qs \<noteq> []"
    by (cases qs) simp_all
  with assms(1) ne show ?thesis
    by (simp add: parse_tables_span_quotes all_quotes_foldl_merge_quote)
qed

text \<open>
  C4: within a sheet, of the quotes whose routes have the same merge signature only the
  first is kept, and the later ones are dropped, not merged into it.  Here \<open>qs\<close> are the
  quotes of the sheet's tables in order: \<open>parse_sheet\<close> returns their first occurrences
  under the signature, each as it was built; only the file's trading dates, if any, are
  written into the quotes returned.  (With no quote at all \<open>parse_sheet\<close> may fall back
  to the sheet name, hence \<open>qs\<close> is not empty.)
\<close>

theorem first_occurrence_of_a_signature_is_kept:
  assumes "span_quotes sheet_data name (find_table_boundaries sheet_data) = Inr qs" "qs \<noteq> []"
  shows "parse_sheet sheet_data name filename dates =
           Inr (with_dates filename dates (first_occurrences quote_signature qs))"
proof -
  from parse_sheet_first_occurrences [OF assms] obtain st where
    "parse_tables sheet_data name
       \<lparr> all_quotes = [], seen_routes = [], has_content_route = False \<rparr>
       (find_table_boundaries sheet_data) = Inr st"
    "all_quotes st = first_occurrences quote_signature qs" "all_quotes st \<noteq> []"
    "sheet_data \<noteq> []"
    by blast
  then show ?thesis
    by (simp add: parse_sheet_def sheet_name_quote_def)
qed

text \<open>
  The witness: the two tables of the two-spellings sheet give one quote each, their
  signatures are equal (``Malaysia'' is normalised to ``Malay''), and \<open>parse_sheet\<close>
  returns the first quote alone, with its own spelling and agent.
\<close>

theorem first_occurrence_of_a_signature_is_kept_witness:
  "span_quotes two_spellings_sheet (Some [0x53]) (find_table_boundaries two_spellings_sheet)
     = Inr [spelling_quote [0x9A6C, 0x6765, 0x897F, 0x4E9A] [0x41, 0x31],
            spelling_quote [0x9A6C, 0x6765] [0x42, 0x32]] \<and>
   quote_signature (spelling_quote [0x9A6C, 0x6765, 0x897F, 0x4E9A] [0x41, 0x31])
     = quote_signature (spelling_quote [0x9A6C, 0x6765] [0x42, 0x32]) \<and>
   parse_sheet two_spellings_sheet (Some [0x53]) None (None, None)
     = Inr [spelling_quote [0x9A6C, 0x6765, 0x897F, 0x4E9A] [0x41, 0x31]]"
proof -
  have s: "span_quotes two_spellings_sheet (Some [0x53]) (find_table_boundaries two_spellings_sheet)
     = Inr [spelling_quote [0x9A6C, 0x6765, 0x897F, 0x4E9A] [0x41, 0x31],
            spelling_quote [0x9A6C, 0x6765] [0x42, 0x32]]"
    by code_simp
  have e: "quote_signature (spelling_quote [0x9A6C, 0x6765, 0x897F, 0x4E9A] [0x41, 0x31])
     = quote_signature (spelling_quote [0x9A6C, 0x6765] [0x42, 0x32])"
    by code_simp
  from first_occurrence_of_a_signature_is_kept [OF s, of None "(None, None)"] e s
  show ?thesis by (simp add: with_dates_def truthy_def)
qed

section \<open>One table, several agents\<close>

lemma extract_column_quote_route:
  "extract_column_quote table_data col_idx s base_route name = Some q \<Longrightarrow>
     qb_route q = base_route\<lparr> trade_start_date := None, trade_end_date := None, sheet_name := name \<rparr>"
  by (auto simp: extract_column_quote_def Let_def split: if_splits)

lemma in_map_filterD: "y \<in> set (List.map_filter f xs) \<Longrightarrow> \<exists>x \<in> set xs. f x = Some y"
  by (induction xs) (auto simp: List.map_filter_simps split: option.splits)

lemma parse_single_table_same_route:
  assumes "parse_single_table table_data route_text name = Inr qs" "q \<in> set qs" "q' \<in> set qs"
  shows "qb_route q = qb_route q'"
proof -
  consider (empty) "qs = []"
    | (single) base_route s where "qs = [\<lparr> qb_route = base_route, qb_agent = single_agent table_data s name \<rparr>]"
    | (multi) base_route s where
        "qs = List.map_filter (\<lambda>col_idx. extract_column_quote table_data col_idx s base_route name)
                [1..<num_cols s]"
    using assms(1)
    by (auto simp: parse_single_table_def split: if_splits option.splits sum.splits)
  then show ?thesis
  proof cases
    case empty
    with assms show ?thesis by simp
  next
    case single
    with assms show ?thesis by simp
  next
    case multi
    with assms(2,3) show ?thesis
      by (auto dest!: in_map_filterD extract_column_quote_route)
  qed
qed

text \<open>
  A sheet with one span whose table gives some quotes: they all carry the same route, and
  \<open>parse_sheet\<close> keeps the first of them alone.
\<close>

lemma parse_sheet_one_span:
  assumes "find_table_boundaries sheet_data = [(start_row, end_row, route_text)]"
    and "parse_single_table (rows_of_span sheet_data start_row end_row) route_text name = Inr (q # qs)"
  shows "parse_sheet sheet_data name filename dates = Inr (with_dates filename dates [q]) \<and>
         list_all (\<lambda>q'. qb_route q' = qb_route q) qs"
proof -
  have same: "\<forall>q' \<in> set qs. qb_route q' = qb_route q"
  proof
    fix q'
    assume "q' \<in> set qs"
    then have "q' \<in> set (q # qs)" and "q \<in> set (q # qs)"
      by simp_all
    then show "qb_route q' = qb_route q"
      by (rule parse_single_table_same_route [OF assms(2)])
  qed
  then have "\<forall>q' \<in> set qs. quote_signature q' = quote_signature q"
    by (simp add: quote_signature_def)
  then have first: "first_occurrences quote_signature (q # qs) = [q]"
    by (rule first_occurrences_same_key)
  have "span_quotes sheet_data name [(start_row, end_row, route_text)] = Inr (q # qs)"
    by (simp add: assms(2))
  then have "span_quotes sheet_data name (find_table_boundaries sheet_data) = Inr (q # qs)"
    by (simp only: assms(1))
  then have "\<exists>st. parse_tables sheet_data name
                \<lparr> all_quotes = [], seen_routes = [], has_content_route = False \<rparr>
                (find_table_boundaries sheet_data) = Inr st \<and>
              all_quotes st = first_occurrences quote_signature (q # qs) \<and> all_quotes st \<noteq> [] \<and>
              sheet_data \<noteq> []"
    by (rule parse_sheet_first_occurrences) simp
  then obtain st where st:
    "parse_tables sheet_data name
       \<lparr> all_quotes = [], seen_routes = [], has_content_route = False \<rparr>
       (find_table_boundaries sheet_data) = Inr st"
    "all_quotes st = [q]" "sheet_data \<noteq> []"
    unfolding first by (elim exE conjE)
  have "sheet_name_quote st name = [q]"
    by (simp add: sheet_name_quote_def st(2))
  with st(1,3) have "parse_sheet sheet_data name filename dates = Inr (with_dates filename dates [q])"
    by (simp add: parse_sheet_def)
  with same show ?thesis by (simp add: list_all_iff)
qed

text \<open>The cells that \<open>_get_cell\<close> returns are trimmed and not empty.\<close>

lemma strip_Nil: "strip [] = []"
  by (simp add: strip_def strip_by_def rstrip_by_def lstrip_by_def)

lemma get_cell_SomeD:
  assumes "get_cell table_data row_idx col_idx = Some a"
  shows "row_idx < length table_data" "col_idx < length (table_data ! row_idx)"
    "a = strip (table_data ! row_idx ! col_idx)" "a \<noteq> []" "table_data ! row_idx ! col_idx \<noteq> []"
proof -
  from assms show in_range: "row_idx < length table_data" "col_idx < length (table_data ! row_idx)"
    by (auto simp: get_cell_def Let_def split: if_splits)
  with assms show a: "a = strip (table_data ! row_idx ! col_idx)"
    by (auto simp: get_cell_def Let_def split: if_splits)
  from assms in_range have "py_lower (strip (table_data ! row_idx ! col_idx)) \<noteq> []"
    by (auto simp: get_cell_def Let_def split: if_splits)
  with a show "a \<noteq> []"
    by (auto simp: py_lower_def)
  with a show "table_data ! row_idx ! col_idx \<noteq> []"
    by (auto simp: strip_Nil)
qed

lemma extract_column_quote_agent:
  assumes "agent_row s = Some r" "get_cell table_data r col_idx = Some a"
  shows "extract_column_quote table_data col_idx s base_route name
           = Some (column_quote base_route name a)"
proof -
  from get_cell_SomeD(3,4) [OF assms(2)] have "a \<noteq> []" "strip a = a"
    by (simp_all add: strip_trimmed trimmed_strip)
  with assms show ?thesis
    by (simp add: extract_column_quote_def column_quote_def truthy_def)
qed

lemma extract_column_quote_no_agent:
  assumes "agent_row s = Some r" "get_cell table_data r col_idx = None"
  shows "extract_column_quote table_data col_idx s base_route name = None"
  using assms by (simp add: extract_column_quote_def truthy_def)

text \<open>The number of columns is at least the length of every row.\<close>

lemma foldl_max_ge: "(a::nat) \<le> foldl max a xs \<and> (\<forall>x \<in> set xs. x \<le> foldl max a xs)"
proof (induction xs arbitrary: a)
  case Nil
  then show ?case by simp
next
  case (Cons x xs)
  from Cons.IH [of "max a x"] show ?case
    by auto
qed

lemma num_cols_ge:
  assumes "identify_structure table_data = Inr (Some s)" "row_idx < length table_data"
  shows "length (table_data ! row_idx) \<le> num_cols s"
proof (cases "table_data ! row_idx = []")
  case True
  then show ?thesis by simp
next
  case False
  with assms(2) have member: "table_data ! row_idx \<in> set (filter (\<lambda>row. row \<noteq> []) table_data)"
    by simp
  then obtain row rows where rows: "filter (\<lambda>row. row \<noteq> []) table_data = row # rows"
    by (cases "filter (\<lambda>row. row \<noteq> []) table_data") auto
  with assms(1) have "num_cols s = foldl max (length row) (map length rows)"
    by (auto simp: identify_structure_def split: if_splits)
  moreover from member rows
  have "table_data ! row_idx = row \<or> length (table_data ! row_idx) \<in> set (map length rows)"
    by auto
  ultimately show ?thesis
    using foldl_max_ge [of "length row" "map length rows"] by auto
qed

lemma not_single_column:
  assumes "2 < num_cols s" "agent_row s = Some r" "get_cell table_data r 1 = Some a"
  shows "\<not> is_single_column table_data s"
proof -
  from get_cell_SomeD [OF assms(3)]
  have r: "r < length table_data" and len: "1 < length (table_data ! r)"
    and cell: "table_data ! r ! 1 \<noteq> []"
    by simp_all
  from len have "table_data ! r ! 1 \<in> set (drop 1 (table_data ! r))"
    by (auto simp: in_set_conv_nth intro!: exI [of _ 0])
  with cell have "list_ex (\<lambda>c. c \<noteq> []) (drop 1 (table_data ! r))"
    by (auto simp: list_ex_iff)
  with assms(1,2) r len show ?thesis
    by (simp add: is_single_column_def)
qed

lemma map_filter_append:
  "List.map_filter f (xs @ ys) = List.map_filter f xs @ List.map_filter f ys"
  by (simp add: List.map_filter_def)

lemma map_filter_all_None:
  "\<forall>x \<in> set xs. f x = None \<Longrightarrow> List.map_filter f xs = []"
  by (induction xs) (simp_all add: List.map_filter_simps)

text \<open>
  The table of a span whose agent row has agents in columns 1, 2 and 3 and in no later
  column: one quote for each of the three, in the order of the columns.
\<close>

lemma parse_single_table_three_agents:
  assumes "base_route_of route_text name = Some base_route"
    and "identify_structure table_data = Inr (Some s)"
    and "agent_row s = Some r" "0 < r"
    and "get_cell table_data r 1 = Some a1" "get_cell table_data r 2 = Some a2"
      "get_cell table_data r 3 = Some a3"
    and "\<forall>col_idx. 4 \<le> col_idx \<and> col_idx < num_cols s \<longrightarrow> get_cell table_data r col_idx = None"
  shows "parse_single_table table_data route_text name
           = Inr (map (column_quote base_route name) [a1, a2, a3])"
proof -
  let ?f = "\<lambda>col_idx. extract_column_quote table_data col_idx s base_route name"
  from get_cell_SomeD(1,2) [OF assms(7)]
  have r: "r < length table_data" and "3 < length (table_data ! r)"
    by simp_all
  with num_cols_ge [OF assms(2), of r] have cols: "4 \<le> num_cols s"
    by simp
  from r assms(4) have rows: "table_data \<noteq> []" "\<not> length table_data < 2"
    by auto
  from cols assms(3,5) have multi: "\<not> is_single_column table_data s"
    by (intro not_single_column) simp_all
  from cols have "[1..<num_cols s] = [1..<4] @ [4..<num_cols s]"
    using upt_add_eq_append [of 1 4 "num_cols s - 4"] by simp
  also have "[1..<4] = [1, 2, 3::nat]"
    by (simp add: upt_rec)
  finally have columns: "[1..<num_cols s] = [1, 2, 3] @ [4..<num_cols s]" .
  have "List.map_filter ?f [4..<num_cols s] = []"
    using assms(3,8) by (intro map_filter_all_None) (simp add: extract_column_quote_no_agent)
  moreover have "List.map_filter ?f [1, 2, 3] = map (column_quote base_route name) [a1, a2, a3]"
    using assms(3,5,6,7) by (simp add: List.map_filter_simps extract_column_quote_agent)
  ultimately have "List.map_filter ?f [1..<num_cols s] = map (column_quote base_route name) [a1, a2, a3]"
    by (simp only: columns map_filter_append append_Nil2)
  with assms(1,2) rows multi show ?thesis
    by (simp add: parse_single_table_def)
qed

text \<open>
  C2, as stated: a sheet with one table, whose agent row has cells in columns 1, 2 and 3
  under one route header, would give three quote records.  The test sheet of the
  repository is such a sheet: its only span is rows 0 to 3, the agent row (row 1) has
  three agent cells, and \<open>parse_sheet\<close> returns one record, the first agent's.
\<close>

theorem three_agents_one_record_counterexample:
  "find_table_boundaries test_sheet = [(0, 3, hd (hd test_sheet))] \<and>
   map (get_cell test_sheet 1) [1, 2, 3]
     = [Some [0x878D, 0x8FC5], Some [0x94F6, 0x987A, 0x8FBE], Some [0x6B27, 0x6D32, 0x4E13, 0x7EBF]] \<and>
   parse_sheet test_sheet (Some test_sheet_name) None (None, None)
     = Inr [test_quote [0x878D, 0x8FC5]]"
  by code_simp

text \<open>
  C2, amended: take a sheet with one table whose header (or, failing that, the sheet
  name) gives a route with an origin or a destination, and whose agent row, below the
  header row, has agents in columns 1, 2 and 3 and in no later column.  The table gives
  three quotes, one for each agent column in order, all with the same route, and
  \<open>parse_sheet\<close> emits exactly one record: the quote of column 1, the other two falling
  to the merge by signature.
\<close>

theorem three_agent_columns_give_one_record:
  assumes "find_table_boundaries sheet_data = [(start_row, end_row, route_text)]"
    and "table_data = rows_of_span sheet_data start_row end_row"
    and "base_route_of route_text name = Some base_route"
    and "identify_structure table_data = Inr (Some s)"
    and "agent_row s = Some r" "0 < r"
    and "get_cell table_data r 1 = Some a1" "get_cell table_data r 2 = Some a2"
      "get_cell table_data r 3 = Some a3"
    and "\<forall>col_idx. 4 \<le> col_idx \<and> col_idx < num_cols s \<longrightarrow> get_cell table_data r col_idx = None"
  shows "parse_single_table table_data route_text name
           = Inr (map (column_quote base_route name) [a1, a2, a3]) \<and>
         parse_sheet sheet_data name filename dates
           = Inr (with_dates filename dates [column_quote base_route name a1])"
proof -
  have table: "parse_single_table table_data route_text name
           = Inr (map (column_quote base_route name) [a1, a2, a3])"
    using assms(3-10) by (rule parse_single_table_three_agents)
  then have "parse_single_table (rows_of_span sheet_data start_row end_row) route_text name
           = Inr (column_quote base_route name a1 #
                  [column_quote base_route name a2, column_quote base_route name a3])"
    by (simp add: assms(2))
  from parse_sheet_one_span [OF assms(1) this, of filename dates] table show ?thesis
    by simp
qed

text \<open>
  The witness is the test sheet: one span, the agent row is row 1 of four columns, and
  the route of the header is that of the expected quotes.
\<close>

theorem three_agent_columns_give_one_record_witness:
  "find_table_boundaries test_sheet = [(0, 3, hd (hd test_sheet))] \<and>
   base_route_of (hd (hd test_sheet)) (Some test_sheet_name) = Some (qb_route (test_quote [])) \<and>
   identify_structure (rows_of_span test_sheet 0 3)
     = Inr (Some \<lparr> num_cols = 4, agent_row = Some 1 \<rparr>) \<and>
   parse_single_table (rows_of_span test_sheet 0 3) (hd (hd test_sheet)) (Some test_sheet_name)
     = Inr [test_quote [0x878D, 0x8FC5], test_quote [0x94F6, 0x987A, 0x8FBE],
            test_quote [0x6B27, 0x6D32, 0x4E13, 0x7EBF]] \<and>
   parse_sheet test_sheet (Some test_sheet_name) None (None, None)
     = Inr [test_quote [0x878D, 0x8FC5]]"
proof -
  have b: "find_table_boundaries test_sheet = [(0, 3, hd (hd test_sheet))]"
    by code_simp
  have base: "base_route_of (hd (hd test_sheet)) (Some test_sheet_name) = Some (qb_route (test_quote []))"
    by code_simp
  have s: "identify_structure (rows_of_span test_sheet 0 3)
     = Inr (Some \<lparr> num_cols = 4, agent_row = Some 1 \<rparr>)"
    by code_simp
  have c1: "get_cell (rows_of_span test_sheet 0 3) 1 1 = Some [0x878D, 0x8FC5]"
    by code_simp
  have c2: "get_cell (rows_of_span test_sheet 0 3) 1 2 = Some [0x94F6, 0x987A, 0x8FBE]"
    by code_simp
  have c3: "get_cell (rows_of_span test_sheet 0 3) 1 3 = Some [0x6B27, 0x6D32, 0x4E13, 0x7EBF]"
    by code_simp
  have q: "column_quote (qb_route (test_quote [])) (Some test_sheet_name) a = test_quote a" for a
    by (simp add: column_quote_def test_quote_def empty_route_def)
  have r: "agent_row \<lparr> num_cols = 4, agent_row = Some 1 \<rparr> = Some 1" "0 < (1::nat)"
    by simp_all
  have rest: "\<forall>col_idx. 4 \<le> col_idx \<and> col_idx < num_cols \<lparr> num_cols = 4, agent_row = Some 1 \<rparr>
                \<longrightarrow> get_cell (rows_of_span test_sheet 0 3) 1 col_idx = None"
    by auto
  from three_agent_columns_give_one_record
         [OF b refl base s r c1 c2 c3 rest, of None "(None, None)"] b base s q
  show ?thesis
    by (simp add: with_dates_def truthy_def)
qed
section \<open>Titles with a colon\<close>







text \<open>
  Titles of three places, over an agent row: with an unknown last place the title opens
  a span, with an unknown middle place it opens none, though its two ends are known.
\<close>

lemma three_place_titles:
  "\<not> is_valid_location [0x706B, 0x661F] \<and>
   scanned_spans unknown_last_place_sheet = [(0, 1, hd (hd unknown_last_place_sheet))] \<and>
   scanned_spans unknown_middle_place_sheet = []"
  by code_simp

end
